theory Spec2Isabelle
  imports Complex_Main
begin

section \<open>Frechet Audio Distance: the statistical distance engine of \<open>src/model/fad.py\<close>\<close>

subsection \<open>Numbers\<close>

text \<open>
  A numpy float is modelled as an exact real or as \<open>NonFinite\<close>, which stands for
  \<open>inf\<close>, \<open>-inf\<close> and \<open>nan\<close> together. Rounding and overflow are not modelled. A
  non-finite operand makes the result of \<open>+\<close>, \<open>-\<close>, \<open>*\<close> and \<open>/\<close> non-finite, as in
  IEEE arithmetic; a division by zero gives \<open>inf\<close> or \<open>nan\<close>, hence \<open>NonFinite\<close>.
\<close>

datatype fnum = Finite real | NonFinite

fun fadd :: "fnum \<Rightarrow> fnum \<Rightarrow> fnum" where
  "fadd (Finite a) (Finite b) = Finite (a + b)"
| "fadd _ _ = NonFinite"

fun fsub :: "fnum \<Rightarrow> fnum \<Rightarrow> fnum" where
  "fsub (Finite a) (Finite b) = Finite (a - b)"
| "fsub _ _ = NonFinite"

fun fmul :: "fnum \<Rightarrow> fnum \<Rightarrow> fnum" where
  "fmul (Finite a) (Finite b) = Finite (a * b)"
| "fmul _ _ = NonFinite"

fun fdiv :: "fnum \<Rightarrow> fnum \<Rightarrow> fnum" where
  "fdiv (Finite a) (Finite b) = (if b = 0 then NonFinite else Finite (a / b))"
| "fdiv _ _ = NonFinite"

fun fabs :: "fnum \<Rightarrow> fnum" where
  "fabs (Finite a) = Finite \<bar>a\<bar>"
| "fabs NonFinite = NonFinite"

text \<open>\<open>np.max\<close> of two absolute values: \<open>inf\<close> and \<open>nan\<close> both win.\<close>

fun fmax :: "fnum \<Rightarrow> fnum \<Rightarrow> fnum" where
  "fmax (Finite a) (Finite b) = Finite (max a b)"
| "fmax _ _ = NonFinite"

fun isfinite :: "fnum \<Rightarrow> bool" where
  "isfinite (Finite a) = True"
| "isfinite NonFinite = False"

text \<open>
  \<open>np.isclose(x, 0, rtol=1e-05, atol=atol)\<close>: \<open>|x - 0| <= atol + rtol * |0|\<close> for a
  finite \<open>x\<close>, false for \<open>inf\<close> and \<open>nan\<close>.
\<close>

fun isclose0 :: "real \<Rightarrow> fnum \<Rightarrow> bool" where
  "isclose0 atol (Finite a) = (\<bar>a\<bar> \<le> atol)"
| "isclose0 atol NonFinite = False"

primrec fsum :: "fnum list \<Rightarrow> fnum" where
  "fsum [] = Finite 0"
| "fsum (x # xs) = fadd x (fsum xs)"

subsection \<open>Arrays\<close>

text \<open>
  Arrays of up to two dimensions: a 0-d array (or Python scalar), a vector, and a matrix
  as the list of its rows. A numpy matrix is rectangular (\<open>rectangular\<close>); a matrix
  without rows has shape \<open>(0, 0)\<close> here.
\<close>

type_synonym vec = "fnum list"
type_synonym mat = "fnum list list"

datatype ndarray = A0 fnum | A1 vec | A2 mat

text \<open>A complex number is the pair of its real and imaginary part.\<close>

type_synonym cnum = "fnum \<times> fnum"

text \<open>
  What \<open>scipy.linalg.sqrtm\<close> returns: a 2-d array of real or of complex type. The
  function is outside the repository: the model takes it as a parameter
  \<open>sqrtm :: mat \<Rightarrow> carray\<close> that returns an array for every matrix.
\<close>

datatype carray = RealArr mat | ComplexArr "cnum list list"

datatype error =
    AssertionError string
  | ValueError_imaginary fnum     \<comment> \<open>\<open>ValueError('Imaginary component m')\<close>\<close>
  | ValueError_shapes             \<comment> \<open>numpy: shapes not aligned, dimensions do not match\<close>
  | ValueError_empty              \<comment> \<open>numpy: need at least one array, zero-size array\<close>
  | AxisError                     \<comment> \<open>numpy: axis 0 is out of bounds\<close>
  | TypeError_unpack              \<comment> \<open>cannot unpack non-iterable int object\<close>
  | OSError                       \<comment> \<open>the file cannot be written or read\<close>
  | ExternalError string          \<comment> \<open>raised by the embedder or the resampler\<close>

definition ncols :: "'a list list \<Rightarrow> nat" where
  "ncols m = (case m of [] \<Rightarrow> 0 | r # _ \<Rightarrow> length r)"

definition rectangular :: "'a list list \<Rightarrow> bool" where
  "rectangular m = list_all (\<lambda>r. length r = ncols m) m"

fun shape :: "ndarray \<Rightarrow> nat list" where
  "shape (A0 x) = []"
| "shape (A1 v) = [length v]"
| "shape (A2 m) = [length m, ncols m]"

fun atleast_1d :: "ndarray \<Rightarrow> ndarray" where
  "atleast_1d (A0 x) = A1 [x]"
| "atleast_1d (A1 v) = A1 v"
| "atleast_1d (A2 m) = A2 m"

text \<open>\<open>np.atleast_2d\<close> always returns a 2-d array here, so the model returns the matrix.\<close>

fun atleast_2d :: "ndarray \<Rightarrow> mat" where
  "atleast_2d (A0 x) = [[x]]"
| "atleast_2d (A1 v) = [v]"
| "atleast_2d (A2 m) = m"

definition dotv :: "vec \<Rightarrow> vec \<Rightarrow> fnum" where
  "dotv u v = fsum (map2 fmul u v)"

definition cols :: "'a list list \<Rightarrow> 'a list list" where
  "cols m = map (\<lambda>j. map (\<lambda>r. r ! j) m) [0..<ncols m]"

definition matmul :: "mat \<Rightarrow> mat \<Rightarrow> mat" where
  "matmul a b = map (\<lambda>r. map (\<lambda>c. dotv r c) (cols b)) a"

text \<open>\<open>a.dot(b)\<close> for two 2-d arrays: the matrix product, or numpy's ValueError.\<close>

definition mat_dot :: "mat \<Rightarrow> mat \<Rightarrow> error + mat" where
  "mat_dot a b = (if ncols a \<noteq> length b then Inl ValueError_shapes else Inr (matmul a b))"

text \<open>
  \<open>a.dot(b)\<close> in general: a 0-d operand multiplies, two vectors give the inner product,
  a matrix and a vector the matrix-vector product, two matrices the matrix product.
\<close>

fun np_dot :: "ndarray \<Rightarrow> ndarray \<Rightarrow> error + ndarray" where
  "np_dot (A0 x) (A0 y) = Inr (A0 (fmul x y))"
| "np_dot (A0 x) (A1 v) = Inr (A1 (map (fmul x) v))"
| "np_dot (A0 x) (A2 m) = Inr (A2 (map (map (fmul x)) m))"
| "np_dot (A1 u) (A0 y) = Inr (A1 (map (\<lambda>a. fmul a y) u))"
| "np_dot (A1 u) (A1 v) =
     (if length u \<noteq> length v then Inl ValueError_shapes else Inr (A0 (dotv u v)))"
| "np_dot (A1 u) (A2 m) =
     (if length u \<noteq> length m then Inl ValueError_shapes
      else Inr (A1 (map (\<lambda>c. dotv u c) (cols m))))"
| "np_dot (A2 m) (A0 y) = Inr (A2 (map (map (\<lambda>a. fmul a y)) m))"
| "np_dot (A2 m) (A1 v) =
     (if ncols m \<noteq> length v then Inl ValueError_shapes
      else Inr (A1 (map (\<lambda>r. dotv r v) m)))"
| "np_dot (A2 a) (A2 b) =
     (case mat_dot a b of Inl e \<Rightarrow> Inl e | Inr c \<Rightarrow> Inr (A2 c))"

text \<open>
  Elementwise difference of two arrays of one shape (\<open>mu1 - mu2\<close>, after the check of
  line 86). The source subtracts no other pair; broadcasting is not modelled, and the
  last equation is never reached from \<open>calculate_frechet_distance\<close>.
\<close>

fun nd_sub :: "ndarray \<Rightarrow> ndarray \<Rightarrow> ndarray" where
  "nd_sub (A1 u) (A1 v) = A1 (map2 fsub u v)"
| "nd_sub (A2 a) (A2 b) = A2 (map2 (map2 fsub) a b)"
| "nd_sub (A0 x) (A0 y) = A0 (fsub x y)"
| "nd_sub a b = a"

text \<open>An array plus or minus a scalar, broadcast over the entries.\<close>

fun nd_map :: "(fnum \<Rightarrow> fnum) \<Rightarrow> ndarray \<Rightarrow> ndarray" where
  "nd_map f (A0 x) = A0 (f x)"
| "nd_map f (A1 v) = A1 (map f v)"
| "nd_map f (A2 m) = A2 (map (map f) m)"

definition nd_add_scalar :: "ndarray \<Rightarrow> fnum \<Rightarrow> ndarray" where
  "nd_add_scalar a t = nd_map (\<lambda>x. fadd x t) a"

definition nd_sub_scalar :: "ndarray \<Rightarrow> fnum \<Rightarrow> ndarray" where
  "nd_sub_scalar a t = nd_map (\<lambda>x. fsub x t) a"

definition mat_add :: "mat \<Rightarrow> mat \<Rightarrow> mat" where
  "mat_add a b = map2 (map2 fadd) a b"

text \<open>\<open>np.diagonal\<close> and \<open>np.trace\<close> of a 2-d array.\<close>

definition np_diagonal :: "'a list list \<Rightarrow> 'a list" where
  "np_diagonal m = map (\<lambda>i. m ! i ! i) [0..<min (length m) (ncols m)]"

definition np_trace :: "mat \<Rightarrow> fnum" where
  "np_trace m = fsum (np_diagonal m)"

text \<open>\<open>np.eye(n) * eps\<close>.\<close>

definition np_eye :: "nat \<Rightarrow> mat" where
  "np_eye n = map (\<lambda>i. map (\<lambda>j. if i = j then Finite 1 else Finite 0) [0..<n]) [0..<n]"

definition mat_scale :: "mat \<Rightarrow> fnum \<Rightarrow> mat" where
  "mat_scale m c = map (map (\<lambda>x. fmul x c)) m"

text \<open>\<open>np.isfinite(covmean).all()\<close>: a complex entry is finite when both parts are.\<close>

fun isfinite_all :: "carray \<Rightarrow> bool" where
  "isfinite_all (RealArr m) = list_all (list_all isfinite) m"
| "isfinite_all (ComplexArr m) = list_all (list_all (\<lambda>(re, im). isfinite re \<and> isfinite im)) m"

fun iscomplexobj :: "carray \<Rightarrow> bool" where
  "iscomplexobj (RealArr m) = False"
| "iscomplexobj (ComplexArr m) = True"

text \<open>\<open>np.allclose(v, 0, atol=atol)\<close>.\<close>

definition allclose0 :: "real \<Rightarrow> vec \<Rightarrow> bool" where
  "allclose0 atol v = list_all (isclose0 atol) v"

text \<open>\<open>np.max(np.abs(a))\<close> over all entries of \<open>a\<close>; numpy raises on a zero-size array.\<close>

fun max_abs :: "vec \<Rightarrow> error + fnum" where
  "max_abs [] = Inl ValueError_empty"
| "max_abs (x # xs) = Inr (fold (\<lambda>y acc. fmax acc (fabs y)) xs (fabs x))"

subsection \<open>The distance calculator\<close>

text \<open>
  Lines 102 to 109 of the source: the check of the imaginary part of a complex
  \<open>covmean\<close>, its real part, and the trace.
\<close>

definition real_covmean :: "carray \<Rightarrow> error + mat" where
  "real_covmean covmean =
     (case covmean of
        RealArr m \<Rightarrow> Inr m
      | ComplexArr m \<Rightarrow>
          if \<not> allclose0 (1 / 1000) (map snd (np_diagonal m)) then
            (case max_abs (map snd (concat m)) of
               Inl e \<Rightarrow> Inl e
             | Inr mx \<Rightarrow> Inl (ValueError_imaginary mx))
          else Inr (map (map fst) m))"

text \<open>
  Lines 93 to 100: the square root of the product and, when it has a non-finite entry,
  the square root of the product of the offset matrices. \<open>sqrtm\<close> is scipy's function,
  a parameter of the model.
\<close>

definition covmean_of :: "(mat \<Rightarrow> carray) \<Rightarrow> mat \<Rightarrow> mat \<Rightarrow> mat \<Rightarrow> fnum \<Rightarrow> carray" where
  "covmean_of sqrtm sprod sigma1 sigma2 eps =
     (let covmean = sqrtm sprod in
      if \<not> isfinite_all covmean then
        (let offset = mat_scale (np_eye (length sigma1)) eps in
         sqrtm (matmul (mat_add sigma1 offset) (mat_add sigma2 offset)))
      else covmean)"

definition calculate_frechet_distance ::
  "(mat \<Rightarrow> carray) \<Rightarrow> ndarray \<Rightarrow> ndarray \<Rightarrow> ndarray \<Rightarrow> ndarray \<Rightarrow> fnum \<Rightarrow> error + ndarray" where
  "calculate_frechet_distance sqrtm mu1_in sigma1_in mu2_in sigma2_in eps =
     (let mu1 = atleast_1d mu1_in;
          mu2 = atleast_1d mu2_in;
          sigma1 = atleast_2d sigma1_in;
          sigma2 = atleast_2d sigma2_in
      in
      if shape mu1 \<noteq> shape mu2 then
        Inl (AssertionError ''Training and test mean vectors have different lengths'')
      else if shape (A2 sigma1) \<noteq> shape (A2 sigma2) then
        Inl (AssertionError ''Training and test covariances have different dimensions'')
      else
        (let diff = nd_sub mu1 mu2 in
         (case mat_dot sigma1 sigma2 of
            Inl e \<Rightarrow> Inl e
          | Inr sprod \<Rightarrow>
              (case real_covmean (covmean_of sqrtm sprod sigma1 sigma2 eps) of
                 Inl e \<Rightarrow> Inl e
               | Inr covmean \<Rightarrow>
                   (let tr_covmean = np_trace covmean in
                    (case np_dot diff diff of
                       Inl e \<Rightarrow> Inl e
                     | Inr dd \<Rightarrow>
                         Inr (nd_sub_scalar
                                (nd_add_scalar (nd_add_scalar dd (np_trace sigma1))
                                   (np_trace sigma2))
                                (fmul (Finite 2) tr_covmean))))))))"

text \<open>The default of the parameter \<open>eps\<close>.\<close>

definition eps_default :: fnum where
  "eps_default = Finite (1 / 1000000)"

subsection \<open>The statistics estimator\<close>

text \<open>\<open>np.mean(a, axis=0)\<close>: the sum along the first axis divided by its length.\<close>

fun np_mean :: "ndarray \<Rightarrow> error + ndarray" where
  "np_mean (A0 x) = Inl AxisError"
| "np_mean (A1 v) = Inr (A0 (fdiv (fsum v) (Finite (real (length v)))))"
| "np_mean (A2 m) =
     Inr (A1 (map (\<lambda>c. fdiv (fsum c) (Finite (real (length m)))) (cols m)))"

text \<open>
  \<open>np.cov(a, rowvar=False)\<close>, following numpy: the input is made 2-d and transposed
  unless it has exactly one row, so that each row of \<open>X\<close> is one variable; an \<open>X\<close>
  without rows gives the empty matrix; the rows are centred, \<open>X \<cdot> X\<^sup>T\<close> is multiplied by
  \<open>1 / fact\<close> with \<open>fact = N - 1\<close> (and \<open>0.0\<close> when that is not positive), and the result
  is squeezed, which turns a \<open>1 \<times> 1\<close> matrix into a 0-d array.
\<close>

definition np_cov :: "ndarray \<Rightarrow> ndarray" where
  "np_cov a =
     (let X0 = atleast_2d a;
          X = (if length X0 \<noteq> 1 then cols X0 else X0)
      in
      if X = [] then A2 []
      else
        (let nobs = ncols X;
             avg = map (\<lambda>r. fdiv (fsum r) (Finite (real nobs))) X;
             fact = (if nobs \<le> 1 then 0 else real nobs - 1);
             Xc = map2 (\<lambda>r a. map (\<lambda>x. fsub x a) r) X avg;
             c = map (\<lambda>r. map (\<lambda>s. dotv r s) Xc) Xc;
             c' = mat_scale c (fdiv (Finite 1) (Finite fact))
         in (case c' of [[x]] \<Rightarrow> A0 x | _ \<Rightarrow> A2 c')))"

definition calculate_embd_statistics :: "ndarray \<Rightarrow> error + (ndarray \<times> ndarray)" where
  "calculate_embd_statistics embd_lst =
     (case np_mean embd_lst of
        Inl e \<Rightarrow> Inl e
      | Inr mu \<Rightarrow> Inr (mu, np_cov embd_lst))"

subsection \<open>The embedding batch collector\<close>

text \<open>A loop or comprehension over a list that stops at the first call that raises.\<close>

fun map_raise :: "('a \<Rightarrow> error + 'b) \<Rightarrow> 'a list \<Rightarrow> error + 'b list" where
  "map_raise f [] = Inr []"
| "map_raise f (x # xs) =
     (case f x of
        Inl e \<Rightarrow> Inl e
      | Inr y \<Rightarrow> (case map_raise f xs of Inl e \<Rightarrow> Inl e | Inr ys \<Rightarrow> Inr (y # ys)))"

text \<open>
  \<open>np.concatenate(arrays, axis=0)\<close> of 2-d arrays: numpy raises ValueError on an empty
  list and when the arrays differ in their number of columns.
\<close>

definition np_concatenate :: "mat list \<Rightarrow> error + mat" where
  "np_concatenate arrays =
     (if arrays = [] then Inl ValueError_empty
      else if \<not> rectangular (concat arrays) then Inl ValueError_shapes
      else Inr (concat arrays))"

text \<open>
  \<open>forward\<close> is the embedder: \<open>self.model.forward(audio, sr)\<close> followed by
  \<open>.detach().numpy()\<close>, a 2-d array with one row for each frame of the audio.
\<close>

definition get_embeddings :: "('w \<Rightarrow> error + mat) \<Rightarrow> 'w list \<Rightarrow> error + mat" where
  "get_embeddings forward x =
     (case map_raise forward x of
        Inl e \<Rightarrow> Inl e
      | Inr embd_lst \<Rightarrow> np_concatenate embd_lst)"

subsection \<open>The statistics cache and the orchestrator\<close>

text \<open>
  The collaborators outside the repository: the resampling of an evaluation sample and
  of a background sample to a mono waveform, the embedder, and scipy's \<open>sqrtm\<close>.
\<close>

record ('s, 'w) externals =
  resample_eval :: "'s \<Rightarrow> error + 'w"
  resample_background :: "'s \<Rightarrow> error + 'w"
  model_forward :: "'w \<Rightarrow> error + mat"
  linalg_sqrtm :: "mat \<Rightarrow> carray"

text \<open>
  The file system: the regular files, each holding a saved pair of statistics, and the
  directories. Paths are compared as strings. \<open>compute_runs\<close> is a ghost counter of the
  runs of the background computation (line 120 onwards); the source has no such field.
\<close>

record world =
  files :: "string \<rightharpoonup> (ndarray \<times> ndarray)"
  dirs :: "string set"
  compute_runs :: nat

text \<open>\<open>os.path.join(a, b)\<close> for a relative \<open>b\<close>.\<close>

definition path_join :: "string \<Rightarrow> string \<Rightarrow> string" where
  "path_join a b =
     (if a = [] then b else if last a = CHR ''/'' then a @ b else a @ ''/'' @ b)"

text \<open>Line 116: the file of the saved statistics inside the directory \<open>save_path\<close>.\<close>

definition cache_file :: "string \<Rightarrow> string" where
  "cache_file save_path = path_join save_path ''background_statistics.ptc''"

definition path_exists :: "world \<Rightarrow> string \<Rightarrow> bool" where
  "path_exists w p = (p \<in> dirs w \<or> files w p \<noteq> None)"

definition torch_load :: "world \<Rightarrow> string \<Rightarrow> error + (ndarray \<times> ndarray)" where
  "torch_load w p = (case files w p of None \<Rightarrow> Inl OSError | Some obj \<Rightarrow> Inr obj)"

text \<open>
  \<open>torch.save(obj, p)\<close> writes the file \<open>p\<close> inside the directory \<open>dir\<close>; it creates no
  directory and raises when \<open>dir\<close> does not exist. The empty \<open>dir\<close> is the current
  directory.
\<close>

definition torch_save ::
  "world \<Rightarrow> string \<Rightarrow> string \<Rightarrow> ndarray \<times> ndarray \<Rightarrow> error + world" where
  "torch_save w dir p obj =
     (if dir \<noteq> [] \<and> dir \<notin> dirs w then Inl OSError
      else Inr (w\<lparr>files := (files w)(p \<mapsto> obj)\<rparr>))"

text \<open>What the two public operations return: a result, or the integer \<open>-1\<close>.\<close>

datatype stats_result = Stats ndarray ndarray | StatsInt int

datatype score_result = Distance ndarray | ScoreInt int

definition calculate_embd_statistics_background ::
  "('s, 'w) externals \<Rightarrow> world \<Rightarrow> 's list \<Rightarrow> string \<Rightarrow> (error + stats_result) \<times> world" where
  "calculate_embd_statistics_background ext w background save_path0 =
     (let save_path = cache_file save_path0 in
      if path_exists w save_path then
        (case torch_load w save_path of
           Inl e \<Rightarrow> (Inl e, w)
         | Inr (mu, sigma) \<Rightarrow> (Inr (Stats mu sigma), w))
      else
        (let w1 = w\<lparr>compute_runs := Suc (compute_runs w)\<rparr> in
         (case map_raise (resample_background ext) background of
            Inl e \<Rightarrow> (Inl e, w1)
          | Inr waves \<Rightarrow>
              (case get_embeddings (model_forward ext) waves of
                 Inl e \<Rightarrow> (Inl e, w1)
               | Inr embds_background \<Rightarrow>
                   if length embds_background = 0 then (Inr (StatsInt (- 1)), w1)
                   else
                     (case calculate_embd_statistics (A2 embds_background) of
                        Inl e \<Rightarrow> (Inl e, w1)
                      | Inr background_statistics \<Rightarrow>
                          (case torch_save w1 save_path0 save_path background_statistics of
                             Inl e \<Rightarrow> (Inl e, w1)
                           | Inr w2 \<Rightarrow>
                               (Inr (Stats (fst background_statistics)
                                       (snd background_statistics)), w2)))))))"

text \<open>
  \<open>score\<close>; \<open>background\<close> stands for the field \<open>self.background\<close>. Unpacking the integer
  \<open>-1\<close> into \<open>mu_background, sigma_background\<close> raises TypeError.
\<close>

definition score ::
  "('s, 'w) externals \<Rightarrow> world \<Rightarrow> 's list \<Rightarrow> 's list \<Rightarrow> (error + score_result) \<times> world" where
  "score ext w background evaluation =
     (case map_raise (resample_eval ext) evaluation of
        Inl e \<Rightarrow> (Inl e, w)
      | Inr waves \<Rightarrow>
          (case get_embeddings (model_forward ext) waves of
             Inl e \<Rightarrow> (Inl e, w)
           | Inr embds_eval \<Rightarrow>
               if length embds_eval = 0 then (Inr (ScoreInt (- 1)), w)
               else
                 (case calculate_embd_statistics_background ext w background ''.tmp/'' of
                    (Inl e, w') \<Rightarrow> (Inl e, w')
                  | (Inr (StatsInt i), w') \<Rightarrow> (Inl TypeError_unpack, w')
                  | (Inr (Stats mu_background sigma_background), w') \<Rightarrow>
                      (case calculate_embd_statistics (A2 embds_eval) of
                         Inl e \<Rightarrow> (Inl e, w')
                       | Inr (mu_eval, sigma_eval) \<Rightarrow>
                           (case calculate_frechet_distance (linalg_sqrtm ext)
                                   mu_background sigma_background mu_eval sigma_eval
                                   eps_default of
                              Inl e \<Rightarrow> (Inl e, w')
                            | Inr fad_score \<Rightarrow> (Inr (Distance fad_score), w'))))))"

subsection \<open>The formula of the specification\<close>

text \<open>
  Section 4.4, step 5 of the specification, for two mean vectors:
  \<open>dot(diff, diff) + trace(sigma1) + trace(sigma2) - 2 * trace(covmean)\<close> with
  \<open>diff = mu1 - mu2\<close>.
\<close>

definition frechet_formula :: "vec \<Rightarrow> vec \<Rightarrow> mat \<Rightarrow> mat \<Rightarrow> mat \<Rightarrow> fnum" where
  "frechet_formula mu1 mu2 sigma1 sigma2 covmean =
     (let diff = map2 fsub mu1 mu2 in
      fsub (fadd (fadd (dotv diff diff) (np_trace sigma1)) (np_trace sigma2))
        (fmul (Finite 2) (np_trace covmean)))"

text \<open>The matrix whose square root the recovery step takes.\<close>

definition offset_product :: "mat \<Rightarrow> mat \<Rightarrow> fnum \<Rightarrow> mat" where
  "offset_product sigma1 sigma2 eps =
     matmul (mat_add sigma1 (mat_scale (np_eye (length sigma1)) eps))
       (mat_add sigma2 (mat_scale (np_eye (length sigma1)) eps))"

text \<open>The absolute value of a finite float as a real.\<close>

fun magnitude :: "fnum \<Rightarrow> real" where
  "magnitude (Finite a) = \<bar>a\<bar>"
| "magnitude NonFinite = 0"

text \<open>
  Transposition: \<open>cols m\<close> is the transpose of a rectangular matrix \<open>m\<close> with at least
  one column. A symmetric matrix is a square matrix equal to its transpose.
\<close>

definition symmetric :: "'a list list \<Rightarrow> bool" where
  "symmetric m = (cols m = m)"

fun ctranspose :: "carray \<Rightarrow> carray" where
  "ctranspose (RealArr m) = RealArr (cols m)"
| "ctranspose (ComplexArr m) = ComplexArr (cols m)"

fun crectangular :: "carray \<Rightarrow> bool" where
  "crectangular (RealArr m) = rectangular m"
| "crectangular (ComplexArr m) = rectangular m"

text \<open>
  Calls of \<open>calculate_embd_statistics_background\<close> one after the other, each on the
  world the call before it left.
\<close>

primrec repeated_calls ::
  "('s, 'w) externals \<Rightarrow> 's list \<Rightarrow> string \<Rightarrow> nat \<Rightarrow> world \<Rightarrow> world" where
  "repeated_calls ext background save_path 0 w = w"
| "repeated_calls ext background save_path (Suc n) w =
     repeated_calls ext background save_path n
       (snd (calculate_embd_statistics_background ext w background save_path))"

subsection \<open>Instances of the collaborators for the examples\<close>

text \<open>
  The entrywise square root: the principal square root of a diagonal matrix. Without a
  negative entry the result is a real array; with one it is a complex array, the root
  of a negative entry being imaginary, as scipy returns it.
\<close>

fun nonneg :: "fnum \<Rightarrow> bool" where
  "nonneg (Finite a) = (0 \<le> a)"
| "nonneg NonFinite = True"

text \<open>The real root, taken of the entries of a matrix without a negative entry.\<close>

fun fsqrt :: "fnum \<Rightarrow> fnum" where
  "fsqrt (Finite a) = Finite (sqrt a)"
| "fsqrt NonFinite = NonFinite"

fun csqrt_entry :: "fnum \<Rightarrow> cnum" where
  "csqrt_entry (Finite a) =
     (if a < 0 then (Finite 0, Finite (sqrt (- a))) else (Finite (sqrt a), Finite 0))"
| "csqrt_entry NonFinite = (NonFinite, NonFinite)"

definition sqrtm_entrywise :: "mat \<Rightarrow> carray" where
  "sqrtm_entrywise m =
     (if list_all (list_all nonneg) m then RealArr (map (map fsqrt) m)
      else ComplexArr (map (map csqrt_entry) m))"

text \<open>
  The recurrence of scipy's \<open>sqrtm\<close> on an upper triangular \<open>2 \<times> 2\<close> matrix
  \<open>[[a, b], [0, d]]\<close> with a non-negative diagonal: the root has the diagonal \<open>sqrt a\<close>,
  \<open>sqrt d\<close> and the entry \<open>b / (sqrt a + sqrt d)\<close> above it. When \<open>sqrt a + sqrt d\<close> is
  zero that entry is \<open>0\<close> for \<open>b = 0\<close>; for another \<open>b\<close> the matrix has no square root
  and every entry of the result is \<open>nan\<close>. Every other matrix is left to the entrywise
  root.
\<close>

definition sqrtm_triu2 :: "mat \<Rightarrow> carray" where
  "sqrtm_triu2 m =
     (case m of
        [[Finite a, Finite b], [Finite c, Finite d]] \<Rightarrow>
          if c = 0 \<and> 0 \<le> a \<and> 0 \<le> d then
            (if sqrt a + sqrt d \<noteq> 0 then
               RealArr [[Finite (sqrt a), Finite (b / (sqrt a + sqrt d))],
                        [Finite 0, Finite (sqrt d)]]
             else if b = 0 then RealArr [[Finite 0, Finite 0], [Finite 0, Finite 0]]
             else RealArr [[NonFinite, NonFinite], [NonFinite, NonFinite]])
          else sqrtm_entrywise m
      | _ \<Rightarrow> sqrtm_entrywise m)"

text \<open>
  A sample of the examples is the embedding of its audio, one row for each frame:
  resampling and embedding return what they are given.
\<close>

definition example_externals :: "(mat, mat) externals" where
  "example_externals =
     \<lparr>resample_eval = Inr, resample_background = Inr, model_forward = Inr,
      linalg_sqrtm = sqrtm_entrywise\<rparr>"

definition world_empty :: world where
  "world_empty = \<lparr>files = Map.empty, dirs = {}, compute_runs = 0\<rparr>"

definition world_tmp :: world where
  "world_tmp = \<lparr>files = Map.empty, dirs = {''.tmp/''}, compute_runs = 0\<rparr>"

definition example_background :: "mat list" where
  "example_background = [[[Finite 0, Finite 0]], [[Finite 2, Finite 0]]]"

definition example_evaluation :: "mat list" where
  "example_evaluation = [[[Finite 0, Finite 2]], [[Finite 2, Finite 2]]]"

section \<open>Properties\<close>

subsection \<open>Errors of the numpy operations\<close>

lemma mat_dot_error: "mat_dot a b = Inl e \<Longrightarrow> e = ValueError_shapes"
  by (simp add: mat_dot_def split: if_splits)

lemma np_dot_error: "np_dot a b = Inl e \<Longrightarrow> e = ValueError_shapes"
  by (cases a; cases b) (auto simp: mat_dot_def split: if_splits)

lemma np_diagonal_nonempty: "np_diagonal m \<noteq> [] \<Longrightarrow> concat m \<noteq> []"
  by (cases m) (auto simp: np_diagonal_def ncols_def)

text \<open>
  \<open>np.max\<close> is reached with a diagonal entry that is not close to zero, so the array
  is not empty: the only error of lines 102 to 107 is the one the source raises.
\<close>

lemma real_covmean_error:
  "real_covmean c = Inl e \<Longrightarrow> \<exists>mx. e = ValueError_imaginary mx"
proof (cases c)
  case (RealArr m)
  assume "real_covmean c = Inl e"
  with RealArr show ?thesis by (simp add: real_covmean_def)
next
  case (ComplexArr m)
  assume err: "real_covmean c = Inl e"
  show ?thesis
  proof (cases "allclose0 (1 / 1000) (map snd (np_diagonal m))")
    case True
    with err ComplexArr show ?thesis by (simp add: real_covmean_def)
  next
    case False
    then have "np_diagonal m \<noteq> []" by (auto simp: allclose0_def)
    then have "concat m \<noteq> []" by (rule np_diagonal_nonempty)
    then obtain x xs where "map snd (concat m) = x # xs"
      by (cases "map snd (concat m)") auto
    with err ComplexArr False show ?thesis by (auto simp: real_covmean_def)
  qed
qed

lemma atleast_1d_idem: "atleast_1d (atleast_1d a) = atleast_1d a"
  by (cases a) simp_all

lemma atleast_2d_idem: "atleast_2d (A2 (atleast_2d a)) = atleast_2d a"
  by (cases a) simp_all

lemma fadd_zero: "fadd x (Finite 0) = x"
  by (cases x) simp_all

subsection \<open>Empty inputs\<close>

text \<open>
  C8. The claim: for an empty sequence of waveforms \<open>get_embeddings\<close> returns an empty
  batch and does not raise. The code: the loop leaves \<open>embd_lst\<close> empty and
  \<open>np.concatenate\<close> of an empty list raises ValueError.
\<close>

theorem get_embeddings_empty_raises:
  "get_embeddings forward [] = Inl ValueError_empty"
  by (simp add: get_embeddings_def np_concatenate_def)

text \<open>
  C3. The claim: \<open>score\<close> returns \<open>-1\<close> for an empty evaluation sequence and for an
  empty background set. The code: for an empty evaluation sequence the ValueError of
  \<open>get_embeddings\<close> leaves \<open>score\<close> before the test of line 133; for an empty
  background set without a saved file the same error leaves
  \<open>calculate_embd_statistics_background\<close>; and where that function does return \<open>-1\<close>
  (a background sample without frames), unpacking it in line 136 raises TypeError.
\<close>

theorem score_empty_raises:
  "score ext w background [] = (Inl ValueError_empty, w) \<and>
   score example_externals world_empty [] example_evaluation =
     (Inl ValueError_empty, world_empty\<lparr>compute_runs := 1\<rparr>) \<and>
   score example_externals world_empty [[]] example_evaluation =
     (Inl TypeError_unpack, world_empty\<lparr>compute_runs := 1\<rparr>)"
proof (intro conjI)
  show "score ext w background [] = (Inl ValueError_empty, w)"
    by (simp add: score_def get_embeddings_def np_concatenate_def)
  have embds: "get_embeddings (model_forward example_externals)
      [[[Finite 0, Finite 2]], [[Finite 2, Finite 2]]] =
      Inr [[Finite 0, Finite 2], [Finite 2, Finite 2]]"
    by (simp add: get_embeddings_def np_concatenate_def example_externals_def
        rectangular_def ncols_def)
  have no_file: "\<not> path_exists world_empty (cache_file ''.tmp/'')"
    by (simp add: path_exists_def world_empty_def)
  have "calculate_embd_statistics_background example_externals world_empty [] ''.tmp/'' =
      (Inl ValueError_empty, world_empty\<lparr>compute_runs := 1\<rparr>)"
    using no_file
    by (simp add: calculate_embd_statistics_background_def get_embeddings_def
        np_concatenate_def world_empty_def)
  then show "score example_externals world_empty [] example_evaluation =
      (Inl ValueError_empty, world_empty\<lparr>compute_runs := 1\<rparr>)"
    using embds
    by (simp add: score_def example_evaluation_def example_externals_def)
  have "calculate_embd_statistics_background example_externals world_empty [[]] ''.tmp/'' =
      (Inr (StatsInt (- 1)), world_empty\<lparr>compute_runs := 1\<rparr>)"
    using no_file
    by (simp add: calculate_embd_statistics_background_def get_embeddings_def
        np_concatenate_def world_empty_def example_externals_def rectangular_def)
  then show "score example_externals world_empty [[]] example_evaluation =
      (Inl TypeError_unpack, world_empty\<lparr>compute_runs := 1\<rparr>)"
    using embds
    by (simp add: score_def example_evaluation_def example_externals_def)
qed

subsection \<open>Promotion and the shape checks\<close>

text \<open>
  C6. When the promoted means differ in shape, or the promoted covariances do,
  \<open>calculate_frechet_distance\<close> raises the AssertionError of the failed check (the
  spec's ShapeMismatchError) and returns no distance. The shapes are those after
  \<open>np.atleast_1d\<close> and \<open>np.atleast_2d\<close>.
\<close>

theorem shape_mismatch_raises:
  assumes "shape (atleast_1d mu1) \<noteq> shape (atleast_1d mu2) \<or>
           shape (A2 (atleast_2d sigma1)) \<noteq> shape (A2 (atleast_2d sigma2))"
  shows "calculate_frechet_distance sqrtm mu1 sigma1 mu2 sigma2 eps =
    Inl (AssertionError
      (if shape (atleast_1d mu1) \<noteq> shape (atleast_1d mu2)
       then ''Training and test mean vectors have different lengths''
       else ''Training and test covariances have different dimensions''))"
  using assms unfolding calculate_frechet_distance_def Let_def by auto

theorem shape_mismatch_raises_witness:
  "calculate_frechet_distance sqrtm_entrywise
     (A1 [Finite 1, Finite 0]) (A2 [[Finite 2, Finite 0], [Finite 0, Finite 0]])
     (A1 [Finite 1, Finite 2, Finite 3]) (A2 [[Finite 2, Finite 0], [Finite 0, Finite 0]])
     eps_default =
   Inl (AssertionError ''Training and test mean vectors have different lengths'') \<and>
   calculate_frechet_distance sqrtm_entrywise
     (A1 [Finite 1, Finite 0]) (A2 [[Finite 2, Finite 0], [Finite 0, Finite 0]])
     (A1 [Finite 1, Finite 2]) (A0 (Finite 2))
     eps_default =
   Inl (AssertionError ''Training and test covariances have different dimensions'')"
  using shape_mismatch_raises [of "A1 [Finite 1, Finite 0]" "A1 [Finite 1, Finite 2, Finite 3]"
      "A2 [[Finite 2, Finite 0], [Finite 0, Finite 0]]"
      "A2 [[Finite 2, Finite 0], [Finite 0, Finite 0]]" sqrtm_entrywise eps_default]
    shape_mismatch_raises [of "A1 [Finite 1, Finite 0]" "A1 [Finite 1, Finite 2]"
      "A2 [[Finite 2, Finite 0], [Finite 0, Finite 0]]" "A0 (Finite 2)"
      sqrtm_entrywise eps_default]
  by (simp add: ncols_def)

text \<open>
  C10. The inputs are promoted before the checks: a call gives what the call on the
  promoted inputs gives; scalar statistics are compared as a 1-element vector and a
  \<open>1 \<times> 1\<close> matrix, with no AssertionError; and the function raises an AssertionError
  exactly when the promoted shapes differ.
\<close>

theorem promotion_before_validation:
  "calculate_frechet_distance sqrtm mu1 sigma1 mu2 sigma2 eps =
     calculate_frechet_distance sqrtm (atleast_1d mu1) (A2 (atleast_2d sigma1))
       (atleast_1d mu2) (A2 (atleast_2d sigma2)) eps \<and>
   calculate_frechet_distance sqrtm (A0 m1) (A0 v1) (A0 m2) (A0 v2) eps =
     calculate_frechet_distance sqrtm (A1 [m1]) (A2 [[v1]]) (A1 [m2]) (A2 [[v2]]) eps \<and>
   calculate_frechet_distance sqrtm (A0 m1) (A0 v1) (A0 m2) (A0 v2) eps =
     (case real_covmean (covmean_of sqrtm [[fmul v1 v2]] [[v1]] [[v2]] eps) of
        Inl e \<Rightarrow> Inl e
      | Inr covmean \<Rightarrow>
          Inr (A0 (fsub (fadd (fadd (fmul (fsub m1 m2) (fsub m1 m2)) v1) v2)
                     (fmul (Finite 2) (np_trace covmean))))) \<and>
   ((\<exists>msg. calculate_frechet_distance sqrtm mu1 sigma1 mu2 sigma2 eps =
        Inl (AssertionError msg)) =
    (shape (atleast_1d mu1) \<noteq> shape (atleast_1d mu2) \<or>
     shape (A2 (atleast_2d sigma1)) \<noteq> shape (A2 (atleast_2d sigma2))))"
proof (intro conjI)
  show "calculate_frechet_distance sqrtm mu1 sigma1 mu2 sigma2 eps =
     calculate_frechet_distance sqrtm (atleast_1d mu1) (A2 (atleast_2d sigma1))
       (atleast_1d mu2) (A2 (atleast_2d sigma2)) eps"
    unfolding calculate_frechet_distance_def
    by (simp only: atleast_1d_idem atleast_2d_idem)
  show "calculate_frechet_distance sqrtm (A0 m1) (A0 v1) (A0 m2) (A0 v2) eps =
     calculate_frechet_distance sqrtm (A1 [m1]) (A2 [[v1]]) (A1 [m2]) (A2 [[v2]]) eps"
    unfolding calculate_frechet_distance_def by simp
  show "calculate_frechet_distance sqrtm (A0 m1) (A0 v1) (A0 m2) (A0 v2) eps =
     (case real_covmean (covmean_of sqrtm [[fmul v1 v2]] [[v1]] [[v2]] eps) of
        Inl e \<Rightarrow> Inl e
      | Inr covmean \<Rightarrow>
          Inr (A0 (fsub (fadd (fadd (fmul (fsub m1 m2) (fsub m1 m2)) v1) v2)
                     (fmul (Finite 2) (np_trace covmean)))))"
    unfolding calculate_frechet_distance_def Let_def
    by (simp add: mat_dot_def matmul_def cols_def ncols_def dotv_def np_trace_def
        np_diagonal_def nd_add_scalar_def nd_sub_scalar_def fadd_zero
        split: sum.splits)
  show "(\<exists>msg. calculate_frechet_distance sqrtm mu1 sigma1 mu2 sigma2 eps =
        Inl (AssertionError msg)) =
    (shape (atleast_1d mu1) \<noteq> shape (atleast_1d mu2) \<or>
     shape (A2 (atleast_2d sigma1)) \<noteq> shape (A2 (atleast_2d sigma2)))"
    unfolding calculate_frechet_distance_def Let_def
    by (auto split: sum.splits dest!: mat_dot_error np_dot_error real_covmean_error)
qed

theorem promotion_before_validation_witness:
  "calculate_frechet_distance sqrtm_entrywise
     (A0 (Finite 1)) (A0 (Finite 2)) (A0 (Finite 3)) (A0 (Finite 2)) eps_default =
   Inr (A0 (Finite 4)) \<and>
   calculate_frechet_distance sqrtm_entrywise
     (A0 (Finite 1)) (A0 (Finite 2)) (A1 [Finite 3]) (A2 [[Finite 2]]) eps_default =
   Inr (A0 (Finite 4))"
proof -
  have cov: "covmean_of sqrtm_entrywise [[Finite 4]] [[Finite 2]]
      [[Finite 2]] eps_default = RealArr [[Finite 2]]"
    by (simp add: covmean_of_def sqrtm_entrywise_def)
  note inst = promotion_before_validation [of sqrtm_entrywise "A0 (Finite 1)" "A0 (Finite 2)"
        "A1 [Finite 3]" "A2 [[Finite 2]]" eps_default "Finite 1" "Finite 2" "Finite 3" "Finite 2"]
  from inst have "calculate_frechet_distance sqrtm_entrywise
     (A0 (Finite 1)) (A0 (Finite 2)) (A0 (Finite 3)) (A0 (Finite 2)) eps_default =
     (case real_covmean (covmean_of sqrtm_entrywise [[fmul (Finite 2) (Finite 2)]]
          [[Finite 2]] [[Finite 2]] eps_default) of
        Inl e \<Rightarrow> Inl e
      | Inr covmean \<Rightarrow>
          Inr (A0 (fsub (fadd (fadd (fmul (fsub (Finite 1) (Finite 3))
                 (fsub (Finite 1) (Finite 3))) (Finite 2)) (Finite 2))
                     (fmul (Finite 2) (np_trace covmean)))))"
    by blast
  then have scalar: "calculate_frechet_distance sqrtm_entrywise
     (A0 (Finite 1)) (A0 (Finite 2)) (A0 (Finite 3)) (A0 (Finite 2)) eps_default =
     Inr (A0 (Finite 4))"
    by (simp add: cov real_covmean_def np_trace_def np_diagonal_def ncols_def)
  from inst have "calculate_frechet_distance sqrtm_entrywise
     (A0 (Finite 1)) (A0 (Finite 2)) (A1 [Finite 3]) (A2 [[Finite 2]]) eps_default =
     calculate_frechet_distance sqrtm_entrywise
     (atleast_1d (A0 (Finite 1))) (A2 (atleast_2d (A0 (Finite 2))))
     (atleast_1d (A1 [Finite 3])) (A2 (atleast_2d (A2 [[Finite 2]]))) eps_default"
    by blast
  moreover from inst have "calculate_frechet_distance sqrtm_entrywise
     (A0 (Finite 1)) (A0 (Finite 2)) (A0 (Finite 3)) (A0 (Finite 2)) eps_default =
     calculate_frechet_distance sqrtm_entrywise (A1 [Finite 1]) (A2 [[Finite 2]])
       (A1 [Finite 3]) (A2 [[Finite 2]]) eps_default"
    by blast
  ultimately show ?thesis using scalar by simp
qed

subsection \<open>The distance on mean vectors and square covariance matrices\<close>

lemma calculate_frechet_distance_vector:
  assumes "length mu1 = length mu2" and "length sigma1 = length sigma2"
    and "ncols sigma1 = ncols sigma2" and "ncols sigma1 = length sigma1"
  shows "calculate_frechet_distance sqrtm (A1 mu1) (A2 sigma1) (A1 mu2) (A2 sigma2) eps =
    (case real_covmean (covmean_of sqrtm (matmul sigma1 sigma2) sigma1 sigma2 eps) of
       Inl e \<Rightarrow> Inl e
     | Inr covmean \<Rightarrow> Inr (A0 (frechet_formula mu1 mu2 sigma1 sigma2 covmean)))"
  using assms unfolding calculate_frechet_distance_def Let_def
  by (simp add: mat_dot_def frechet_formula_def nd_add_scalar_def nd_sub_scalar_def Let_def
      split: sum.splits)

lemma covmean_of_cases:
  "covmean_of sqrtm sprod sigma1 sigma2 eps =
     (if isfinite_all (sqrtm sprod) then sqrtm sprod
      else sqrtm (offset_product sigma1 sigma2 eps))"
  by (simp add: covmean_of_def offset_product_def Let_def)

lemmas array_eval =
  matmul_def cols_def ncols_def dotv_def np_trace_def np_diagonal_def mat_add_def
  mat_scale_def np_eye_def offset_product_def upt_rec numeral_nat

text \<open>
  On finite entries the operations of the model are those of the reals: the formula is
  the squared distance of the means plus the traces minus twice the trace of \<open>covmean\<close>.
\<close>

lemma fsum_Finite: "fsum (map Finite xs) = Finite (sum_list xs)"
  by (induction xs) simp_all

lemma map2_fsub_Finite: "map2 fsub (map Finite a) (map Finite b) = map Finite (map2 (-) a b)"
proof (induction a arbitrary: b)
  case Nil
  show ?case by simp
next
  case (Cons x a)
  then show ?case by (cases b) simp_all
qed

lemma map2_fmul_Finite: "map2 fmul (map Finite a) (map Finite b) = map Finite (map2 (*) a b)"
proof (induction a arbitrary: b)
  case Nil
  show ?case by simp
next
  case (Cons x a)
  then show ?case by (cases b) simp_all
qed

lemma dotv_Finite: "dotv (map Finite a) (map Finite b) = Finite (sum_list (map2 (*) a b))"
  unfolding dotv_def map2_fmul_Finite by (rule fsum_Finite)

lemma ncols_map: "ncols (map (map f) m) = ncols m"
  by (cases m) (simp_all add: ncols_def)

lemma np_diagonal_map:
  assumes "rectangular m"
  shows "np_diagonal (map (map f) m) = map f (np_diagonal m)"
proof -
  have "map (map f) m ! i ! i = f (m ! i ! i)" if "i < min (length m) (ncols m)" for i
  proof -
    from that have i: "i < length m" and j: "i < ncols m" by simp_all
    from assms i have "length (m ! i) = ncols m"
      by (simp add: rectangular_def list_all_length)
    with i j show ?thesis by simp
  qed
  then show ?thesis by (simp add: np_diagonal_def ncols_map)
qed

lemma np_trace_Finite:
  "rectangular m \<Longrightarrow> np_trace (map (map Finite) m) = Finite (sum_list (np_diagonal m))"
  by (simp add: np_trace_def np_diagonal_map fsum_Finite)

lemma frechet_formula_real:
  assumes "rectangular s1" and "rectangular s2" and "rectangular c"
  shows "frechet_formula (map Finite a) (map Finite b) (map (map Finite) s1)
      (map (map Finite) s2) (map (map Finite) c) =
    Finite ((\<Sum>d\<leftarrow>map2 (-) a b. d * d) + sum_list (np_diagonal s1)
      + sum_list (np_diagonal s2) - 2 * sum_list (np_diagonal c))"
proof -
  define d where "d = map2 (-) a b"
  have sq: "map2 (*) d d = map (\<lambda>x. x * x) d"
    by (simp add: zip_same_conv_map)
  have "dotv (map2 fsub (map Finite a) (map Finite b))
      (map2 fsub (map Finite a) (map Finite b)) = Finite (\<Sum>x\<leftarrow>d. x * x)"
    unfolding map2_fsub_Finite d_def [symmetric] dotv_Finite sq ..
  then show ?thesis
    unfolding frechet_formula_def Let_def d_def [symmetric]
    by (simp add: np_trace_Finite assms)
qed



text \<open>The matrix product and the offset matrices, entry by entry.\<close>

lemma map2_nth:
  assumes "length u = n" and "length v = n"
  shows "map2 f u v = map (\<lambda>k. f (u ! k) (v ! k)) [0..<n]"
  using assms by (intro nth_equalityI) simp_all

lemma dotv_nth:
  assumes "length u = n" and "length v = n"
  shows "dotv u v = fsum (map (\<lambda>k. fmul (u ! k) (v ! k)) [0..<n])"
  unfolding dotv_def map2_nth [OF assms] ..

lemma matmul_entries:
  assumes a: "length a = n" and rows: "\<And>i. i < n \<Longrightarrow> length (a ! i) = n"
    and b: "length b = n" and nb: "ncols b = n"
  shows "matmul a b =
    map (\<lambda>i. map (\<lambda>j. fsum (map (\<lambda>k. fmul (a ! i ! k) (b ! k ! j)) [0..<n])) [0..<n]) [0..<n]"
proof (rule nth_equalityI)
  show "length (matmul a b) =
      length (map (\<lambda>i. map (\<lambda>j. fsum (map (\<lambda>k. fmul (a ! i ! k) (b ! k ! j)) [0..<n]))
         [0..<n]) [0..<n])"
    by (simp add: matmul_def a)
  fix i assume "i < length (matmul a b)"
  then have i: "i < n" by (simp add: matmul_def a)
  have "dotv (a ! i) (map (\<lambda>r. r ! j) b) = fsum (map (\<lambda>k. fmul (a ! i ! k) (b ! k ! j)) [0..<n])"
    for j
  proof -
    have "dotv (a ! i) (map (\<lambda>r. r ! j) b) =
        fsum (map (\<lambda>k. fmul (a ! i ! k) (map (\<lambda>r. r ! j) b ! k)) [0..<n])"
      by (rule dotv_nth) (simp_all add: rows [OF i] b)
    also have "\<dots> = fsum (map (\<lambda>k. fmul (a ! i ! k) (b ! k ! j)) [0..<n])"
    proof -
      have "map (\<lambda>k. fmul (a ! i ! k) (map (\<lambda>r. r ! j) b ! k)) [0..<n] =
          map (\<lambda>k. fmul (a ! i ! k) (b ! k ! j)) [0..<n]"
        by (rule map_cong) (simp_all add: b)
      then show ?thesis by (rule arg_cong)
    qed
    finally show ?thesis .
  qed
  then show "matmul a b ! i =
      map (\<lambda>i. map (\<lambda>j. fsum (map (\<lambda>k. fmul (a ! i ! k) (b ! k ! j)) [0..<n]))
         [0..<n]) [0..<n] ! i"
    using i by (simp add: matmul_def a cols_def nb)
qed

lemma offset_entries:
  assumes "length s = n" and "\<And>i. i < n \<Longrightarrow> length (s ! i) = n"
  shows "mat_add s (mat_scale (np_eye n) eps) =
    map (\<lambda>i. map (\<lambda>j. fadd (s ! i ! j) (fmul (if i = j then Finite 1 else Finite 0) eps))
      [0..<n]) [0..<n]"
proof (rule nth_equalityI)
  show len: "length (mat_add s (mat_scale (np_eye n) eps)) =
      length (map (\<lambda>i. map (\<lambda>j. fadd (s ! i ! j)
        (fmul (if i = j then Finite 1 else Finite 0) eps)) [0..<n]) [0..<n])"
    by (simp add: mat_add_def mat_scale_def np_eye_def assms(1))
  fix i assume "i < length (mat_add s (mat_scale (np_eye n) eps))"
  with len have i: "i < n" by simp
  show "mat_add s (mat_scale (np_eye n) eps) ! i =
      map (\<lambda>i. map (\<lambda>j. fadd (s ! i ! j)
        (fmul (if i = j then Finite 1 else Finite 0) eps)) [0..<n]) [0..<n] ! i"
    using i assms(1) assms(2) [OF i]
    by (intro nth_equalityI) (simp_all add: mat_add_def mat_scale_def np_eye_def)
qed

lemma rectangular_rows:
  assumes "rectangular m" and "ncols m = length m" and "i < length m"
  shows "length (m ! i) = length m"
  using assms by (simp add: rectangular_def list_all_length)


lemma ncols_generated: "ncols (map (\<lambda>i. map (g i) [0..<n]) [0..<n]) = n"
  by (cases n) (simp_all add: ncols_def upt_conv_Cons del: upt_Suc)

lemma matmul_generated:
  "matmul (map (\<lambda>i. map (\<lambda>j. f i j) [0..<n]) [0..<n])
     (map (\<lambda>i. map (\<lambda>j. g i j) [0..<n]) [0..<n]) =
   map (\<lambda>i. map (\<lambda>j. fsum (map (\<lambda>k. fmul (f i k) (g k j)) [0..<n])) [0..<n]) [0..<n]"
proof -
  let ?a = "map (\<lambda>i. map (\<lambda>j. f i j) [0..<n]) [0..<n]"
  let ?b = "map (\<lambda>i. map (\<lambda>j. g i j) [0..<n]) [0..<n]"
  have "matmul ?a ?b =
      map (\<lambda>i. map (\<lambda>j. fsum (map (\<lambda>k. fmul (?a ! i ! k) (?b ! k ! j)) [0..<n])) [0..<n])
        [0..<n]"
    by (rule matmul_entries) (simp_all add: ncols_generated)
  also have "\<dots> =
      map (\<lambda>i. map (\<lambda>j. fsum (map (\<lambda>k. fmul (f i k) (g k j)) [0..<n])) [0..<n]) [0..<n]"
  proof (intro map_cong refl arg_cong [where f = fsum])
    fix i j k
    assume "i \<in> set [0..<n]" and "j \<in> set [0..<n]" and "k \<in> set [0..<n]"
    then show "fmul (?a ! i ! k) (?b ! k ! j) = fmul (f i k) (g k j)" by simp
  qed
  finally show ?thesis .
qed

text \<open>
  C4. For mean vectors of one length and square covariance matrices of one size \<open>n\<close>.
  The product \<open>sigma1 \<cdot> sigma2\<close> has the entries \<open>\<Sum>k. sigma1[i][k] * sigma2[k][j]\<close>. When
  its square root has a non-finite entry, the result is computed from the square root
  of the product of \<open>sigma1 + eps \<cdot> I\<close> and \<open>sigma2 + eps \<cdot> I\<close>, whose entries are those
  of \<open>sigma1\<close> and \<open>sigma2\<close> with \<open>eps\<close> added on the diagonal, whatever that square root
  is: it is not tested for finiteness and there is no further attempt. The result
  depends on \<open>sqrtm\<close> through its values at these two matrices only.
\<close>

theorem singular_product_recovery:
  fixes sigma1 sigma2 :: mat and eps :: fnum
  defines "n \<equiv> length sigma1"
  defines "sprod \<equiv>
      map (\<lambda>i. map (\<lambda>j. fsum (map (\<lambda>k. fmul (sigma1 ! i ! k) (sigma2 ! k ! j)) [0..<n]))
        [0..<n]) [0..<n]"
    and "retried \<equiv>
      map (\<lambda>i. map (\<lambda>j. fsum (map (\<lambda>k.
          fmul (fadd (sigma1 ! i ! k) (fmul (if i = k then Finite 1 else Finite 0) eps))
               (fadd (sigma2 ! k ! j) (fmul (if k = j then Finite 1 else Finite 0) eps)))
        [0..<n])) [0..<n]) [0..<n]"
  assumes mu: "length mu1 = length mu2" and len: "length sigma1 = length sigma2"
    and rect1: "rectangular sigma1" and rect2: "rectangular sigma2"
    and sq1: "ncols sigma1 = length sigma1" and sq2: "ncols sigma2 = length sigma2"
    and nonfinite: "\<not> isfinite_all (sqrtm sprod)"
  shows "calculate_frechet_distance sqrtm (A1 mu1) (A2 sigma1) (A1 mu2) (A2 sigma2) eps =
    (case real_covmean (sqrtm retried) of
       Inl e \<Rightarrow> Inl e
     | Inr covmean \<Rightarrow>
         Inr (A0 (fsub
           (fadd (fadd (dotv (map2 fsub mu1 mu2) (map2 fsub mu1 mu2)) (np_trace sigma1))
              (np_trace sigma2))
           (fmul (Finite 2) (np_trace covmean))))) \<and>
    (\<forall>sqrtm'. sqrtm' sprod = sqrtm sprod \<and> sqrtm' retried = sqrtm retried \<longrightarrow>
        calculate_frechet_distance sqrtm' (A1 mu1) (A2 sigma1) (A1 mu2) (A2 sigma2) eps =
        calculate_frechet_distance sqrtm (A1 mu1) (A2 sigma1) (A1 mu2) (A2 sigma2) eps)"
proof -
  have len1: "length sigma1 = n" by (simp add: n_def)
  have len2: "length sigma2 = n" using len by (simp add: n_def)
  have rows1: "length (sigma1 ! i) = n" if "i < n" for i
    using rectangular_rows [OF rect1 sq1] that by (simp add: n_def)
  have rows2: "length (sigma2 ! i) = n" if "i < n" for i
    using rectangular_rows [OF rect2 sq2] that len2 by simp
  have prod: "matmul sigma1 sigma2 = sprod"
    unfolding sprod_def
    by (rule matmul_entries) (simp_all add: n_def rows1 len2 sq2 [unfolded len2])
  have "offset_product sigma1 sigma2 eps =
      matmul (mat_add sigma1 (mat_scale (np_eye n) eps))
        (mat_add sigma2 (mat_scale (np_eye n) eps))"
    by (simp add: offset_product_def n_def)
  also have "\<dots> = retried"
    unfolding retried_def
    by (simp only: offset_entries [OF len1 rows1] offset_entries [OF len2 rows2]
        matmul_generated)
  finally have off: "offset_product sigma1 sigma2 eps = retried" .
  have shapes: "length mu1 = length mu2" "length sigma1 = length sigma2"
      "ncols sigma1 = ncols sigma2" "ncols sigma1 = length sigma1"
    using mu len sq1 sq2 by simp_all
  show ?thesis
    using nonfinite
    by (simp add: calculate_frechet_distance_vector [OF shapes] covmean_of_cases prod off
        frechet_formula_def Let_def split: sum.splits)
qed


theorem singular_product_recovery_witness:
  "\<not> isfinite_all (sqrtm_triu2 [[Finite 0, Finite (999999 / 1000000)], [Finite 0, Finite 0]]) \<and>
   sqrtm_triu2 [[Finite (1 / 1000000), Finite 1], [Finite 0, Finite (1 / 1000000)]] =
     RealArr [[Finite (1 / 1000), Finite 500], [Finite 0, Finite (1 / 1000)]] \<and>
   calculate_frechet_distance sqrtm_triu2
     (A1 [Finite 1, Finite 0]) (A2 [[Finite 0, Finite 1], [Finite 0, Finite 0]])
     (A1 [Finite 1, Finite 2])
     (A2 [[Finite (999999 / 1000000), Finite 0], [Finite 0, Finite (999999 / 1000000)]])
     eps_default = Inr (A0 (Finite (2997999 / 500000)))"
proof -
  let ?s1 = "[[Finite 0, Finite 1], [Finite 0, Finite 0]]"
  let ?s2 = "[[Finite (999999 / 1000000), Finite 0], [Finite 0, Finite (999999 / 1000000)]]"
  have root: "sqrt (1 / 1000000) = 1 / 1000"
    by (rule real_sqrt_unique) (simp_all add: power2_eq_square)
  have first: "sqrtm_triu2 [[Finite 0, Finite (999999 / 1000000)], [Finite 0, Finite 0]] =
      RealArr [[NonFinite, NonFinite], [NonFinite, NonFinite]]"
    by (simp add: sqrtm_triu2_def)
  have second: "sqrtm_triu2 [[Finite (1 / 1000000), Finite 1], [Finite 0, Finite (1 / 1000000)]] =
      RealArr [[Finite (1 / 1000), Finite 500], [Finite 0, Finite (1 / 1000)]]"
    by (simp add: sqrtm_triu2_def root)
  have sprod: "map (\<lambda>i. map (\<lambda>j. fsum (map (\<lambda>k. fmul (?s1 ! i ! k) (?s2 ! k ! j))
      [0..<length ?s1])) [0..<length ?s1]) [0..<length ?s1] =
      [[Finite 0, Finite (999999 / 1000000)], [Finite 0, Finite 0]]"
    by (simp add: upt_rec numeral_nat)
  have retried: "map (\<lambda>i. map (\<lambda>j. fsum (map (\<lambda>k.
          fmul (fadd (?s1 ! i ! k) (fmul (if i = k then Finite 1 else Finite 0) eps_default))
               (fadd (?s2 ! k ! j) (fmul (if k = j then Finite 1 else Finite 0) eps_default)))
        [0..<length ?s1])) [0..<length ?s1]) [0..<length ?s1] =
      [[Finite (1 / 1000000), Finite 1], [Finite 0, Finite (1 / 1000000)]]"
    by (simp add: upt_rec numeral_nat eps_default_def)
  have nonfinite: "\<not> isfinite_all (sqrtm_triu2
      (map (\<lambda>i. map (\<lambda>j. fsum (map (\<lambda>k. fmul (?s1 ! i ! k) (?s2 ! k ! j))
        [0..<length ?s1])) [0..<length ?s1]) [0..<length ?s1]))"
    unfolding sprod first by simp
  have rect: "rectangular ?s1" "rectangular ?s2"
    by (simp_all add: rectangular_def ncols_def)
  have sq: "ncols ?s1 = length ?s1" "ncols ?s2 = length ?s2"
    by (simp_all add: ncols_def)
  from singular_product_recovery [where sqrtm = sqrtm_triu2 and ?mu1.0 = "[Finite 1, Finite 0]"
      and ?mu2.0 = "[Finite 1, Finite 2]" and ?sigma1.0 = ?s1 and ?sigma2.0 = ?s2
      and eps = eps_default, OF _ _ rect sq nonfinite]
  have "calculate_frechet_distance sqrtm_triu2 (A1 [Finite 1, Finite 0]) (A2 ?s1)
      (A1 [Finite 1, Finite 2]) (A2 ?s2) eps_default =
      (case real_covmean (sqrtm_triu2
          [[Finite (1 / 1000000), Finite 1], [Finite 0, Finite (1 / 1000000)]]) of
         Inl e \<Rightarrow> Inl e
       | Inr covmean \<Rightarrow>
           Inr (A0 (fsub
             (fadd (fadd (dotv (map2 fsub [Finite 1, Finite 0] [Finite 1, Finite 2])
                  (map2 fsub [Finite 1, Finite 0] [Finite 1, Finite 2])) (np_trace ?s1))
                (np_trace ?s2))
             (fmul (Finite 2) (np_trace covmean)))))"
    unfolding retried by simp
  then have "calculate_frechet_distance sqrtm_triu2 (A1 [Finite 1, Finite 0]) (A2 ?s1)
      (A1 [Finite 1, Finite 2]) (A2 ?s2) eps_default = Inr (A0 (Finite (2997999 / 500000)))"
    unfolding second
    by (simp add: real_covmean_def np_trace_def np_diagonal_def ncols_def dotv_def
        upt_rec numeral_nat)
  with first second show ?thesis by simp
qed

lemma fold_fmax_NonFinite: "fold (\<lambda>y acc. fmax acc (fabs y)) xs NonFinite = NonFinite"
  by (induction xs) simp_all

lemma Max_insert_max:
  assumes "finite S"
  shows "Max (insert (max a b) S) = Max (insert a (insert b S))"
proof (cases "S = {}")
  case True
  then show ?thesis by simp
next
  case False
  with assms show ?thesis by (simp add: max.assoc)
qed

lemma fold_fmax_Finite:
  "fold (\<lambda>y acc. fmax acc (fabs y)) xs (Finite a) =
     (if NonFinite \<in> set xs then NonFinite
      else Finite (Max (insert a (magnitude ` set xs))))"
proof (induction xs arbitrary: a)
  case Nil
  show ?case by simp
next
  case (Cons y ys)
  show ?case
  proof (cases y)
    case NonFinite
    then show ?thesis by (simp add: fold_fmax_NonFinite)
  next
    case (Finite b)
    then show ?thesis
      using Cons.IH [of "max a \<bar>b\<bar>"] by (simp add: Max_insert_max)
  qed
qed

text \<open>\<open>max_abs\<close> is the largest absolute value, and non-finite when an entry is.\<close>

lemma max_abs_eq_Max:
  assumes "xs \<noteq> []"
  shows "max_abs xs =
    Inr (if NonFinite \<in> set xs then NonFinite else Finite (Max (magnitude ` set xs)))"
proof -
  from assms obtain y ys where xs: "xs = y # ys" by (cases xs) auto
  show ?thesis
  proof (cases y)
    case NonFinite
    with xs show ?thesis by (simp add: fold_fmax_NonFinite)
  next
    case (Finite b)
    with xs show ?thesis by (simp add: fold_fmax_Finite)
  qed
qed

lemma max_abs_set:
  assumes "set xs = set ys"
  shows "max_abs xs = max_abs ys"
proof (cases "xs = []")
  case True
  with assms have "ys = []" by simp
  with True show ?thesis by simp
next
  case False
  with assms have "ys \<noteq> []" by auto
  with False assms show ?thesis by (simp add: max_abs_eq_Max)
qed

text \<open>
  C5. When \<open>covmean\<close> is of complex type: if the imaginary part of its diagonal is not
  within \<open>1e-3\<close> of zero, the function raises the ValueError (the spec's NumericalError)
  that carries the largest absolute imaginary part of all entries of \<open>covmean\<close>
  (non-finite when one of them is); otherwise it computes the distance from the real
  part of \<open>covmean\<close>.
\<close>

theorem imaginary_component_check:
  assumes "length mu1 = length mu2" and "length sigma1 = length sigma2"
    and "ncols sigma1 = ncols sigma2" and "ncols sigma1 = length sigma1"
    and "covmean_of sqrtm (matmul sigma1 sigma2) sigma1 sigma2 eps = ComplexArr m"
  shows "calculate_frechet_distance sqrtm (A1 mu1) (A2 sigma1) (A1 mu2) (A2 sigma2) eps =
    (if \<not> allclose0 (1 / 1000) (map snd (np_diagonal m)) then
       Inl (ValueError_imaginary
         (if NonFinite \<in> snd ` set (concat m) then NonFinite
          else Finite (Max (magnitude ` snd ` set (concat m)))))
     else Inr (A0 (frechet_formula mu1 mu2 sigma1 sigma2 (map (map fst) m))))"
proof (cases "allclose0 (1 / 1000) (map snd (np_diagonal m))")
  case True
  with assms(5) show ?thesis
    by (simp add: calculate_frechet_distance_vector [OF assms(1-4)] real_covmean_def)
next
  case False
  then have "np_diagonal m \<noteq> []" by (auto simp: allclose0_def)
  then have "concat m \<noteq> []" by (rule np_diagonal_nonempty)
  then have "map snd (concat m) \<noteq> []" by simp
  then have "max_abs (map snd (concat m)) =
      Inr (if NonFinite \<in> snd ` set (concat m) then NonFinite
           else Finite (Max (magnitude ` snd ` set (concat m))))"
    by (simp add: max_abs_eq_Max)
  with False assms(5) show ?thesis
    by (simp add: calculate_frechet_distance_vector [OF assms(1-4)] real_covmean_def)
qed

theorem imaginary_component_check_witness:
  "calculate_frechet_distance
     (\<lambda>m. ComplexArr [[(Finite 2, Finite (1 / 2)), (Finite 0, Finite 0)],
                       [(Finite 0, Finite 3), (Finite 0, Finite 0)]])
     (A1 [Finite 1, Finite 0]) (A2 [[Finite 2, Finite 0], [Finite 0, Finite 0]])
     (A1 [Finite 1, Finite 2]) (A2 [[Finite 2, Finite 0], [Finite 0, Finite 0]])
     eps_default = Inl (ValueError_imaginary (Finite 3)) \<and>
   calculate_frechet_distance
     (\<lambda>m. ComplexArr [[(Finite 2, Finite (1 / 10000)), (Finite 0, Finite 5)],
                       [(Finite 0, Finite 0), (Finite 0, Finite 0)]])
     (A1 [Finite 1, Finite 0]) (A2 [[Finite 2, Finite 0], [Finite 0, Finite 0]])
     (A1 [Finite 1, Finite 2]) (A2 [[Finite 2, Finite 0], [Finite 0, Finite 0]])
     eps_default = Inr (A0 (Finite 4))"
proof (intro conjI)
  let ?s = "[[Finite 2, Finite 0], [Finite 0, Finite 0]]"
  let ?far = "[[(Finite 2, Finite (1 / 2)), (Finite 0, Finite 0)],
               [(Finite 0, Finite 3), (Finite 0, Finite 0)]]"
  let ?near = "[[(Finite 2, Finite (1 / 10000)), (Finite 0, Finite 5)],
                [(Finite 0, Finite 0), (Finite 0, Finite 0)]]"
  have far: "covmean_of (\<lambda>m. ComplexArr ?far) (matmul ?s ?s) ?s ?s eps_default =
      ComplexArr ?far"
    by (simp add: covmean_of_def)
  have near: "covmean_of (\<lambda>m. ComplexArr ?near) (matmul ?s ?s) ?s ?s eps_default =
      ComplexArr ?near"
    by (simp add: covmean_of_def)
  from imaginary_component_check [where ?mu1.0 = "[Finite 1, Finite 0]"
      and ?mu2.0 = "[Finite 1, Finite 2]" and ?sigma1.0 = ?s and ?sigma2.0 = ?s
      and eps = eps_default and sqrtm = "\<lambda>m. ComplexArr ?far" and m = ?far] far
  show "calculate_frechet_distance (\<lambda>m. ComplexArr ?far)
     (A1 [Finite 1, Finite 0]) (A2 ?s) (A1 [Finite 1, Finite 2]) (A2 ?s) eps_default =
     Inl (ValueError_imaginary (Finite 3))"
    by (simp add: allclose0_def array_eval)
  from imaginary_component_check [where ?mu1.0 = "[Finite 1, Finite 0]"
      and ?mu2.0 = "[Finite 1, Finite 2]" and ?sigma1.0 = ?s and ?sigma2.0 = ?s
      and eps = eps_default and sqrtm = "\<lambda>m. ComplexArr ?near" and m = ?near] near
  show "calculate_frechet_distance (\<lambda>m. ComplexArr ?near)
     (A1 [Finite 1, Finite 0]) (A2 ?s) (A1 [Finite 1, Finite 2]) (A2 ?s) eps_default =
     Inr (A0 (Finite 4))"
    by (simp add: allclose0_def frechet_formula_def array_eval)
qed

subsection \<open>The end-to-end example\<close>

text \<open>
  C2. For the background batch \<open>[[0,0],[2,0]]\<close> and the evaluation batch
  \<open>[[0,2],[2,2]]\<close> the estimator returns the means \<open>[1,0]\<close> and \<open>[1,2]\<close> and the
  covariance \<open>[[2,0],[0,0]]\<close> twice, and the distance of these statistics is \<open>4\<close>,
  given that \<open>sqrtm\<close> returns \<open>[[2,0],[0,0]]\<close> for the product \<open>[[4,0],[0,0]]\<close>.
\<close>

theorem end_to_end_example:
  assumes "sqrtm [[Finite 4, Finite 0], [Finite 0, Finite 0]] =
           RealArr [[Finite 2, Finite 0], [Finite 0, Finite 0]]"
  shows "calculate_embd_statistics (A2 [[Finite 0, Finite 0], [Finite 2, Finite 0]]) =
      Inr (A1 [Finite 1, Finite 0], A2 [[Finite 2, Finite 0], [Finite 0, Finite 0]]) \<and>
    calculate_embd_statistics (A2 [[Finite 0, Finite 2], [Finite 2, Finite 2]]) =
      Inr (A1 [Finite 1, Finite 2], A2 [[Finite 2, Finite 0], [Finite 0, Finite 0]]) \<and>
    calculate_frechet_distance sqrtm
      (A1 [Finite 1, Finite 0]) (A2 [[Finite 2, Finite 0], [Finite 0, Finite 0]])
      (A1 [Finite 1, Finite 2]) (A2 [[Finite 2, Finite 0], [Finite 0, Finite 0]]) eps =
      Inr (A0 (Finite 4))"
proof (intro conjI)
  show "calculate_embd_statistics (A2 [[Finite 0, Finite 0], [Finite 2, Finite 0]]) =
      Inr (A1 [Finite 1, Finite 0], A2 [[Finite 2, Finite 0], [Finite 0, Finite 0]])"
    by (simp add: calculate_embd_statistics_def np_cov_def array_eval)
  show "calculate_embd_statistics (A2 [[Finite 0, Finite 2], [Finite 2, Finite 2]]) =
      Inr (A1 [Finite 1, Finite 2], A2 [[Finite 2, Finite 0], [Finite 0, Finite 0]])"
    by (simp add: calculate_embd_statistics_def np_cov_def array_eval)
  let ?s = "[[Finite 2, Finite 0], [Finite 0, Finite 0]]"
  have prod: "matmul ?s ?s = [[Finite 4, Finite 0], [Finite 0, Finite 0]]"
    by (simp add: array_eval)
  have "covmean_of sqrtm (matmul ?s ?s) ?s ?s eps = RealArr ?s"
    unfolding prod by (simp add: covmean_of_def assms)
  then show "calculate_frechet_distance sqrtm
      (A1 [Finite 1, Finite 0]) (A2 ?s) (A1 [Finite 1, Finite 2]) (A2 ?s) eps =
      Inr (A0 (Finite 4))"
    by (simp add: calculate_frechet_distance_vector ncols_def real_covmean_def
        frechet_formula_def np_trace_def np_diagonal_def dotv_def upt_rec numeral_nat)
qed

theorem end_to_end_example_witness:
  "calculate_frechet_distance sqrtm_entrywise
      (A1 [Finite 1, Finite 0]) (A2 [[Finite 2, Finite 0], [Finite 0, Finite 0]])
      (A1 [Finite 1, Finite 2]) (A2 [[Finite 2, Finite 0], [Finite 0, Finite 0]])
      eps_default = Inr (A0 (Finite 4)) \<and>
   fst (score example_externals world_tmp example_background example_evaluation) =
      Inr (Distance (A0 (Finite 4)))"
proof -
  have sq: "sqrtm_entrywise [[Finite 4, Finite 0], [Finite 0, Finite 0]] =
           RealArr [[Finite 2, Finite 0], [Finite 0, Finite 0]]"
    by (simp add: sqrtm_entrywise_def)
  note ex = end_to_end_example [of sqrtm_entrywise eps_default, OF sq]
  have bg: "get_embeddings Inr example_background =
      Inr [[Finite 0, Finite 0], [Finite 2, Finite 0]]"
    by (simp add: get_embeddings_def np_concatenate_def example_background_def
        rectangular_def ncols_def)
  have ev: "get_embeddings Inr example_evaluation =
      Inr [[Finite 0, Finite 2], [Finite 2, Finite 2]]"
    by (simp add: get_embeddings_def np_concatenate_def example_evaluation_def
        rectangular_def ncols_def)
  have sel: "resample_eval example_externals = Inr" "model_forward example_externals = Inr"
      "linalg_sqrtm example_externals = sqrtm_entrywise"
    by (simp_all add: example_externals_def)
  have mr: "map_raise Inr xs = Inr xs" for xs :: "mat list"
    by (induction xs) simp_all
  have cache: "calculate_embd_statistics_background example_externals world_tmp
      example_background ''.tmp/'' =
      (Inr (Stats (A1 [Finite 1, Finite 0]) (A2 [[Finite 2, Finite 0], [Finite 0, Finite 0]])),
       world_tmp\<lparr>compute_runs := 1,
         files := [''.tmp/background_statistics.ptc'' \<mapsto>
           (A1 [Finite 1, Finite 0], A2 [[Finite 2, Finite 0], [Finite 0, Finite 0]])]\<rparr>)"
    using ex
    by (simp add: calculate_embd_statistics_background_def example_externals_def mr bg
        path_exists_def cache_file_def path_join_def world_tmp_def torch_save_def)
  have "fst (score example_externals world_tmp example_background example_evaluation) =
      Inr (Distance (A0 (Finite 4)))"
    using ex
    by (simp add: score_def cache sel mr ev)
  with ex show ?thesis by simp
qed

subsection \<open>The statistics cache\<close>

lemma cache_hit:
  assumes "files w (cache_file save_path) = Some (mu, sigma)"
  shows "calculate_embd_statistics_background ext w background save_path =
    (Inr (Stats mu sigma), w)"
  using assms
  by (simp add: calculate_embd_statistics_background_def path_exists_def torch_load_def)

lemma cache_miss:
  assumes "\<not> path_exists w (cache_file save_path)"
    and "map_raise (resample_background ext) background = Inr waves"
    and "get_embeddings (model_forward ext) waves = Inr embds"
    and "embds \<noteq> []"
    and "calculate_embd_statistics (A2 embds) = Inr (mu, sigma)"
    and "save_path = [] \<or> save_path \<in> dirs w"
  shows "calculate_embd_statistics_background ext w background save_path =
    (Inr (Stats mu sigma),
     w\<lparr>compute_runs := Suc (compute_runs w),
       files := (files w)(cache_file save_path \<mapsto> (mu, sigma))\<rparr>)"
  using assms
  by (auto simp add: calculate_embd_statistics_background_def torch_save_def)

lemma repeated_calls_hit:
  assumes "files w (cache_file save_path) = Some (mu, sigma)"
  shows "repeated_calls ext background save_path n w = w"
  by (induction n) (simp_all add: cache_hit [OF assms])

text \<open>
  C7, as the code has it. When a file of saved statistics is at the location, the call
  returns them and leaves the world as it is: the computation does not run. When
  nothing is at the location, the background gives a batch with at least one row and
  the directory \<open>save_path\<close> exists, the call runs the computation once, saves the
  statistics at the location and returns them; every later call returns the saved
  statistics and the computation does not run again.
\<close>

theorem statistics_cache_contract:
  "(files w (cache_file save_path) = Some (mu, sigma) \<longrightarrow>
      calculate_embd_statistics_background ext w background save_path =
        (Inr (Stats mu sigma), w)) \<and>
   (\<not> path_exists w (cache_file save_path) \<and>
    map_raise (resample_background ext) background = Inr waves \<and>
    get_embeddings (model_forward ext) waves = Inr embds \<and> embds \<noteq> [] \<and>
    calculate_embd_statistics (A2 embds) = Inr (mu', sigma') \<and>
    (save_path = [] \<or> save_path \<in> dirs w) \<longrightarrow>
      calculate_embd_statistics_background ext w background save_path =
        (Inr (Stats mu' sigma'),
         w\<lparr>compute_runs := Suc (compute_runs w),
           files := (files w)(cache_file save_path \<mapsto> (mu', sigma'))\<rparr>) \<and>
      (\<forall>n. compute_runs (repeated_calls ext background save_path (Suc n) w) =
             Suc (compute_runs w) \<and>
           fst (calculate_embd_statistics_background ext
                  (repeated_calls ext background save_path (Suc n) w) background save_path) =
             Inr (Stats mu' sigma')))"
proof (intro conjI impI)
  assume "files w (cache_file save_path) = Some (mu, sigma)"
  then show "calculate_embd_statistics_background ext w background save_path =
        (Inr (Stats mu sigma), w)"
    by (rule cache_hit)
next
  assume a: "\<not> path_exists w (cache_file save_path) \<and>
    map_raise (resample_background ext) background = Inr waves \<and>
    get_embeddings (model_forward ext) waves = Inr embds \<and> embds \<noteq> [] \<and>
    calculate_embd_statistics (A2 embds) = Inr (mu', sigma') \<and>
    (save_path = [] \<or> save_path \<in> dirs w)"
  let ?w1 = "w\<lparr>compute_runs := Suc (compute_runs w),
           files := (files w)(cache_file save_path \<mapsto> (mu', sigma'))\<rparr>"
  from a have first: "calculate_embd_statistics_background ext w background save_path =
        (Inr (Stats mu' sigma'), ?w1)"
    by (intro cache_miss [where waves = waves and embds = embds]) simp_all
  then show "calculate_embd_statistics_background ext w background save_path =
        (Inr (Stats mu' sigma'), ?w1)" .
  have saved: "files ?w1 (cache_file save_path) = Some (mu', sigma')" by simp
  show "\<forall>n. compute_runs (repeated_calls ext background save_path (Suc n) w) =
             Suc (compute_runs w) \<and>
           fst (calculate_embd_statistics_background ext
                  (repeated_calls ext background save_path (Suc n) w) background save_path) =
             Inr (Stats mu' sigma')"
  proof
    fix n
    have "repeated_calls ext background save_path (Suc n) w = ?w1"
      by (simp add: first repeated_calls_hit [OF saved])
    then show "compute_runs (repeated_calls ext background save_path (Suc n) w) =
             Suc (compute_runs w) \<and>
           fst (calculate_embd_statistics_background ext
                  (repeated_calls ext background save_path (Suc n) w) background save_path) =
             Inr (Stats mu' sigma')"
      by (simp add: cache_hit [OF saved])
  qed
qed

theorem statistics_cache_contract_witness:
  "calculate_embd_statistics_background example_externals world_tmp example_background
     ''.tmp/'' =
     (Inr (Stats (A1 [Finite 1, Finite 0]) (A2 [[Finite 2, Finite 0], [Finite 0, Finite 0]])),
      world_tmp\<lparr>compute_runs := 1,
        files := [''.tmp/background_statistics.ptc'' \<mapsto>
          (A1 [Finite 1, Finite 0], A2 [[Finite 2, Finite 0], [Finite 0, Finite 0]])]\<rparr>) \<and>
   compute_runs (repeated_calls example_externals example_background ''.tmp/'' 3 world_tmp)
     = 1 \<and>
   calculate_embd_statistics_background example_externals
     (world_tmp\<lparr>compute_runs := 1,
        files := [''.tmp/background_statistics.ptc'' \<mapsto>
          (A1 [Finite 1, Finite 0], A2 [[Finite 2, Finite 0], [Finite 0, Finite 0]])]\<rparr>)
     [] ''.tmp/'' =
     (Inr (Stats (A1 [Finite 1, Finite 0]) (A2 [[Finite 2, Finite 0], [Finite 0, Finite 0]])),
      world_tmp\<lparr>compute_runs := 1,
        files := [''.tmp/background_statistics.ptc'' \<mapsto>
          (A1 [Finite 1, Finite 0], A2 [[Finite 2, Finite 0], [Finite 0, Finite 0]])]\<rparr>)"
proof -
  let ?mu = "A1 [Finite 1, Finite 0]"
  let ?sigma = "A2 [[Finite 2, Finite 0], [Finite 0, Finite 0]]"
  let ?embds = "[[Finite 0, Finite 0], [Finite 2, Finite 0]]"
  let ?w1 = "world_tmp\<lparr>compute_runs := 1,
        files := [''.tmp/background_statistics.ptc'' \<mapsto> (?mu, ?sigma)]\<rparr>"
  have fname: "cache_file ''.tmp/'' = ''.tmp/background_statistics.ptc''"
    by (simp add: cache_file_def path_join_def)
  have miss: "\<not> path_exists world_tmp (cache_file ''.tmp/'')"
    by (simp add: fname path_exists_def world_tmp_def)
  have mr: "map_raise (resample_background example_externals) example_background =
      Inr example_background"
    by (simp add: example_externals_def example_background_def)
  have bg: "get_embeddings (model_forward example_externals) example_background = Inr ?embds"
    by (simp add: get_embeddings_def np_concatenate_def example_background_def
        example_externals_def rectangular_def ncols_def)
  have st: "calculate_embd_statistics (A2 ?embds) = Inr (?mu, ?sigma)"
    by (simp add: calculate_embd_statistics_def np_cov_def array_eval)
  have dir: "''.tmp/'' = [] \<or> ''.tmp/'' \<in> dirs world_tmp"
    by (simp add: world_tmp_def)
  have w1: "world_tmp\<lparr>compute_runs := Suc (compute_runs world_tmp),
      files := (files world_tmp)(cache_file ''.tmp/'' \<mapsto> (?mu, ?sigma))\<rparr> = ?w1"
    by (simp add: fname world_tmp_def)
  from statistics_cache_contract [where w = world_tmp and save_path = "''.tmp/''"
      and ext = example_externals and background = example_background
      and waves = example_background and embds = ?embds and mu' = ?mu and sigma' = ?sigma]
    miss mr bg st dir
  have first: "calculate_embd_statistics_background example_externals world_tmp
      example_background ''.tmp/'' = (Inr (Stats ?mu ?sigma), ?w1)"
    and runs: "compute_runs (repeated_calls example_externals example_background ''.tmp/''
      (Suc 2) world_tmp) = Suc (compute_runs world_tmp)"
    unfolding w1 by blast+
  have saved: "files ?w1 (cache_file ''.tmp/'') = Some (?mu, ?sigma)"
    by (simp add: fname)
  from statistics_cache_contract [where w = ?w1 and save_path = "''.tmp/''"
      and ext = example_externals and background = "[]" and mu = ?mu and sigma = ?sigma] saved
  have again: "calculate_embd_statistics_background example_externals ?w1 [] ''.tmp/'' =
      (Inr (Stats ?mu ?sigma), ?w1)"
    by blast
  from runs have "compute_runs (repeated_calls example_externals example_background ''.tmp/''
      3 world_tmp) = 1"
    by (simp add: world_tmp_def eval_nat_numeral)
  with first again show ?thesis by simp
qed

text \<open>
  The claim also has the call create the directory of the location, and persist
  whatever the computation gives. \<open>torch.save\<close> creates no directory: without the
  directory \<open>.tmp/\<close> the call runs the computation, raises, saves nothing, and the next
  call runs the computation again. And with the directory, a background without frames
  gives \<open>-1\<close>, which line 123 returns before anything is saved.
\<close>

theorem cache_not_persisted_counterexample:
  "\<not> path_exists world_empty (cache_file ''.tmp/'') \<and>
   calculate_embd_statistics_background example_externals world_empty example_background
     ''.tmp/'' = (Inl OSError, world_empty\<lparr>compute_runs := 1\<rparr>) \<and>
   compute_runs (repeated_calls example_externals example_background ''.tmp/'' 2 world_empty)
     = 2 \<and>
   calculate_embd_statistics_background example_externals world_tmp [[]] ''.tmp/'' =
     (Inr (StatsInt (- 1)), world_tmp\<lparr>compute_runs := 1\<rparr>)"
proof -
  have mr: "map_raise Inr xs = Inr xs" for xs :: "mat list"
    by (induction xs) simp_all
  have bg: "get_embeddings Inr example_background =
      Inr [[Finite 0, Finite 0], [Finite 2, Finite 0]]"
    by (simp add: get_embeddings_def np_concatenate_def example_background_def
        rectangular_def ncols_def)
  have sel: "resample_background example_externals = Inr"
      "model_forward example_externals = Inr"
    by (simp_all add: example_externals_def)
  have call: "calculate_embd_statistics_background example_externals
      (world_empty\<lparr>compute_runs := k\<rparr>) example_background ''.tmp/'' =
      (Inl OSError, world_empty\<lparr>compute_runs := Suc k\<rparr>)" for k
    by (simp add: calculate_embd_statistics_background_def sel mr bg path_exists_def
        cache_file_def path_join_def world_empty_def torch_save_def
        calculate_embd_statistics_def)
  have w0: "world_empty = world_empty\<lparr>compute_runs := 0\<rparr>"
    by (simp add: world_empty_def)
  have "calculate_embd_statistics_background example_externals world_empty example_background
     ''.tmp/'' = (Inl OSError, world_empty\<lparr>compute_runs := 1\<rparr>)"
    using call [of 0] w0 by simp
  moreover have "repeated_calls example_externals example_background ''.tmp/'' 2 world_empty =
      world_empty\<lparr>compute_runs := 2\<rparr>"
    using call [of 0] call [of 1] w0 by (simp add: numeral_2_eq_2)
  moreover have "\<not> path_exists world_empty (cache_file ''.tmp/'')"
    by (simp add: path_exists_def world_empty_def)
  moreover have "calculate_embd_statistics_background example_externals world_tmp [[]]
      ''.tmp/'' = (Inr (StatsInt (- 1)), world_tmp\<lparr>compute_runs := 1\<rparr>)"
    by (simp add: calculate_embd_statistics_background_def sel get_embeddings_def
        np_concatenate_def rectangular_def path_exists_def cache_file_def path_join_def
        world_tmp_def)
  ultimately show ?thesis by simp
qed

subsection \<open>Symmetry\<close>

lemma fmul_commute: "fmul a b = fmul b a"
  by (cases a; cases b) simp_all

lemma map2_fmul_commute: "map2 fmul u v = map2 fmul v u"
proof (induction u arbitrary: v)
  case Nil
  show ?case by simp
next
  case (Cons x u)
  then show ?case by (cases v) (simp_all add: fmul_commute)
qed

lemma dotv_commute: "dotv u v = dotv v u"
  by (simp only: dotv_def map2_fmul_commute [of u v])

lemma fsub_square: "fmul (fsub a b) (fsub a b) = fmul (fsub b a) (fsub b a)"
  by (cases a; cases b) (simp_all add: algebra_simps)

lemma dotv_diff_swap:
  "dotv (map2 fsub u v) (map2 fsub u v) = dotv (map2 fsub v u) (map2 fsub v u)"
proof (induction u arbitrary: v)
  case Nil
  show ?case by (simp add: dotv_def)
next
  case (Cons x u)
  show ?case
  proof (cases v)
    case Nil
    then show ?thesis by (simp add: dotv_def)
  next
    case (Cons y v')
    with Cons.IH [of v'] show ?thesis by (simp add: dotv_def fsub_square)
  qed
qed

lemma fadd_swap: "fadd (fadd d a) b = fadd (fadd d b) a"
  by (cases d; cases a; cases b) simp_all

lemma length_cols: "length (cols m) = ncols m"
  by (simp add: cols_def)

lemma nth_cols: "j < ncols m \<Longrightarrow> cols m ! j = map (\<lambda>r. r ! j) m"
  by (simp add: cols_def)

lemma symmetric_square: "symmetric m \<Longrightarrow> ncols m = length m"
  by (metis length_cols symmetric_def)

lemma symmetric_row_length:
  assumes "symmetric m" and "i < length m"
  shows "length (m ! i) = length m"
proof -
  from assms have "i < ncols m" by (simp add: symmetric_square)
  then have "length (cols m ! i) = length m" by (simp add: nth_cols)
  with assms(1) show ?thesis by (simp add: symmetric_def)
qed

lemma symmetric_nth:
  assumes "symmetric m" and "i < length m" and "j < length m"
  shows "m ! i ! j = m ! j ! i"
proof -
  from assms have "i < ncols m" by (simp add: symmetric_square)
  then have "cols m ! i ! j = m ! j ! i" using assms(3) by (simp add: nth_cols)
  with assms(1) show ?thesis by (simp add: symmetric_def)
qed

lemma symmetric_rectangular: "symmetric m \<Longrightarrow> rectangular m"
  by (simp add: rectangular_def list_all_length symmetric_row_length symmetric_square)

text \<open>A matrix with \<open>n\<close> rows of length \<open>n\<close> and symmetric entries is symmetric.\<close>

lemma symmetricI:
  assumes "\<And>i. i < length m \<Longrightarrow> length (m ! i) = length m"
    and "\<And>i j. i < length m \<Longrightarrow> j < length m \<Longrightarrow> m ! i ! j = m ! j ! i"
  shows "symmetric m"
proof (cases m)
  case Nil
  then show ?thesis by (simp add: symmetric_def cols_def ncols_def)
next
  case (Cons r rs)
  with assms(1) [of 0] have nc: "ncols m = length m" by (simp add: ncols_def)
  show ?thesis
    unfolding symmetric_def
  proof (rule nth_equalityI)
    show "length (cols m) = length m" by (simp add: length_cols nc)
    fix i assume "i < length (cols m)"
    then have i: "i < length m" by (simp add: length_cols nc)
    show "cols m ! i = m ! i"
    proof (rule nth_equalityI)
      show "length (cols m ! i) = length (m ! i)" using i by (simp add: nth_cols nc assms(1))
      fix j assume "j < length (cols m ! i)"
      then have j: "j < length m" using i by (simp add: nth_cols nc)
      with i show "cols m ! i ! j = m ! i ! j" by (simp add: nth_cols nc assms(2))
    qed
  qed
qed

lemma nth_matmul:
  assumes "i < length a" and "j < ncols b"
  shows "matmul a b ! i ! j = dotv (a ! i) (map (\<lambda>r. r ! j) b)"
  using assms by (simp add: matmul_def length_cols nth_cols)

lemma length_matmul: "length (matmul a b) = length a"
  by (simp add: matmul_def)

lemma length_matmul_row: "i < length a \<Longrightarrow> length (matmul a b ! i) = ncols b"
  by (simp add: matmul_def length_cols)

lemma ncols_matmul: "a \<noteq> [] \<Longrightarrow> ncols (matmul a b) = ncols b"
  by (cases a) (simp_all add: matmul_def ncols_def length_cols)

lemma symmetric_col:
  assumes "symmetric m" and "j < length m"
  shows "map (\<lambda>r. r ! j) m = m ! j"
proof -
  from assms have "j < ncols m" by (simp add: symmetric_square)
  then have "cols m ! j = map (\<lambda>r. r ! j) m" by (rule nth_cols)
  with assms(1) show ?thesis by (simp add: symmetric_def)
qed

text \<open>The product of two symmetric matrices in the other order is the transpose.\<close>

lemma matmul_symmetric_swap:
  assumes s1: "symmetric s1" and s2: "symmetric s2" and len: "length s1 = length s2"
  shows "matmul s2 s1 = cols (matmul s1 s2)"
proof (cases s1)
  case Nil
  with len show ?thesis by (simp add: matmul_def cols_def ncols_def)
next
  case (Cons r rs)
  then have ne: "s1 \<noteq> []" by simp
  let ?n = "length s1"
  have nc1: "ncols s1 = ?n" using s1 by (rule symmetric_square)
  have nc2: "ncols s2 = ?n" using s2 len by (simp add: symmetric_square)
  have ncp: "ncols (matmul s1 s2) = ?n" using ne nc2 by (simp add: ncols_matmul)
  show ?thesis
  proof (rule nth_equalityI)
    show "length (matmul s2 s1) = length (cols (matmul s1 s2))"
      by (simp add: length_matmul length_cols ncp len)
    fix i assume "i < length (matmul s2 s1)"
    then have i: "i < ?n" by (simp add: length_matmul len)
    show "matmul s2 s1 ! i = cols (matmul s1 s2) ! i"
    proof (rule nth_equalityI)
      show "length (matmul s2 s1 ! i) = length (cols (matmul s1 s2) ! i)"
        using i by (simp add: length_matmul_row len nc1 nth_cols ncp length_matmul)
      fix j assume "j < length (matmul s2 s1 ! i)"
      then have j: "j < ?n" using i by (simp add: length_matmul_row len nc1)
      have "matmul s2 s1 ! i ! j = dotv (s2 ! i) (s1 ! j)"
        using i j by (simp add: nth_matmul len nc1 symmetric_col [OF s1])
      moreover have "cols (matmul s1 s2) ! i ! j = dotv (s1 ! j) (s2 ! i)"
        using i j by (simp add: nth_cols ncp length_matmul nth_matmul nc2
            symmetric_col [OF s2] len)
      ultimately show "matmul s2 s1 ! i ! j = cols (matmul s1 s2) ! i ! j"
        by (simp add: dotv_commute)
    qed
  qed
qed

lemma length_offset: "length (mat_add s (mat_scale (np_eye (length s)) eps)) = length s"
  by (simp add: mat_add_def mat_scale_def np_eye_def)

lemma nth_offset:
  assumes "symmetric s" and "i < length s"
  shows "mat_add s (mat_scale (np_eye (length s)) eps) ! i =
    map (\<lambda>j. fadd (s ! i ! j) (fmul (if i = j then Finite 1 else Finite 0) eps))
      [0..<length s]"
proof (rule nth_equalityI)
  from assms show len: "length (mat_add s (mat_scale (np_eye (length s)) eps) ! i) =
      length (map (\<lambda>j. fadd (s ! i ! j) (fmul (if i = j then Finite 1 else Finite 0) eps))
         [0..<length s])"
    by (simp add: mat_add_def mat_scale_def np_eye_def symmetric_row_length)
  fix j assume "j < length (mat_add s (mat_scale (np_eye (length s)) eps) ! i)"
  with len have j: "j < length s" by simp
  with assms show "mat_add s (mat_scale (np_eye (length s)) eps) ! i ! j =
      map (\<lambda>j. fadd (s ! i ! j) (fmul (if i = j then Finite 1 else Finite 0) eps))
         [0..<length s] ! j"
    by (simp add: mat_add_def mat_scale_def np_eye_def symmetric_row_length)
qed

lemma symmetric_offset:
  assumes "symmetric s"
  shows "symmetric (mat_add s (mat_scale (np_eye (length s)) eps))"
proof (rule symmetricI)
  fix i assume "i < length (mat_add s (mat_scale (np_eye (length s)) eps))"
  then have "i < length s" by (simp add: length_offset)
  then show "length (mat_add s (mat_scale (np_eye (length s)) eps) ! i) =
      length (mat_add s (mat_scale (np_eye (length s)) eps))"
    by (simp add: nth_offset [OF assms] length_offset)
next
  fix i j
  assume "i < length (mat_add s (mat_scale (np_eye (length s)) eps))"
    and "j < length (mat_add s (mat_scale (np_eye (length s)) eps))"
  then have ij: "i < length s" "j < length s" by (simp_all add: length_offset)
  then show "mat_add s (mat_scale (np_eye (length s)) eps) ! i ! j =
      mat_add s (mat_scale (np_eye (length s)) eps) ! j ! i"
    by (simp add: nth_offset [OF assms] symmetric_nth [OF assms])
qed

lemma offset_product_swap:
  assumes "symmetric s1" and "symmetric s2" and "length s1 = length s2"
  shows "offset_product s2 s1 eps = cols (offset_product s1 s2 eps)"
proof -
  let ?a = "mat_add s1 (mat_scale (np_eye (length s1)) eps)"
  let ?b = "mat_add s2 (mat_scale (np_eye (length s2)) eps)"
  have "length ?a = length ?b" unfolding length_offset by (rule assms(3))
  with symmetric_offset [OF assms(1)] symmetric_offset [OF assms(2)]
  have "matmul ?b ?a = cols (matmul ?a ?b)" by (rule matmul_symmetric_swap)
  then show ?thesis by (simp only: offset_product_def assms(3))
qed

lemma ncols_cols: "ncols (cols m) = (if ncols m = 0 then 0 else length m)"
  by (simp add: cols_def ncols_def upt_conv_Cons split: list.splits)

text \<open>What lines 95 to 109 read of \<open>covmean\<close> is the same for its transpose.\<close>

lemma np_diagonal_cols: "np_diagonal (cols m) = np_diagonal m"
proof -
  have "min (length (cols m)) (ncols (cols m)) = min (length m) (ncols m)"
    by (simp add: length_cols ncols_cols min.commute)
  moreover have "cols m ! i ! i = m ! i ! i" if "i < min (length m) (ncols m)" for i
    using that by (simp add: nth_cols)
  ultimately show ?thesis by (simp add: np_diagonal_def)
qed

lemma set_concat_cols:
  assumes "rectangular m"
  shows "set (concat (cols m)) = set (concat m)"
proof -
  have len: "length r = ncols m" if "r \<in> set m" for r
    using assms that by (simp add: rectangular_def list_all_iff)
  have "set (concat (cols m)) = (\<Union>j\<in>{..<ncols m}. (\<lambda>r. r ! j) ` set m)"
    by (auto simp: cols_def)
  also have "\<dots> = (\<Union>r\<in>set m. (\<lambda>j. r ! j) ` {..<ncols m})"
    by blast
  also have "\<dots> = (\<Union>r\<in>set m. set r)"
  proof -
    have "(\<lambda>j. r ! j) ` {..<ncols m} = set r" if "r \<in> set m" for r
      using len [OF that] by (auto simp: set_conv_nth)
    then show ?thesis by simp
  qed
  also have "\<dots> = set (concat m)" by simp
  finally show ?thesis .
qed

lemma list_all_concat: "list_all (list_all P) m = (\<forall>x\<in>set (concat m). P x)"
  by (auto simp: list_all_iff)

lemma isfinite_all_ctranspose:
  "crectangular c \<Longrightarrow> isfinite_all (ctranspose c) = isfinite_all c"
  by (cases c) (simp_all only: ctranspose.simps crectangular.simps isfinite_all.simps
      list_all_concat set_concat_cols)

lemma cols_map:
  assumes "rectangular m"
  shows "cols (map (map f) m) = map (map f) (cols m)"
proof -
  have "map (\<lambda>r. r ! j) (map (map f) m) = map f (map (\<lambda>r. r ! j) m)"
    if "j < ncols m" for j
  proof -
    have "map f r ! j = f (r ! j)" if "r \<in> set m" for r
      using assms that \<open>j < ncols m\<close> by (simp add: rectangular_def list_all_iff)
    then show ?thesis by simp
  qed
  then show ?thesis by (simp add: cols_def ncols_map)
qed

lemma np_trace_cols: "np_trace (cols m) = np_trace m"
  by (simp add: np_trace_def np_diagonal_cols)

lemma real_covmean_ctranspose:
  assumes "crectangular c"
  shows "real_covmean (ctranspose c) =
    (case real_covmean c of Inl e \<Rightarrow> Inl e | Inr m \<Rightarrow> Inr (cols m))"
proof (cases c)
  case (RealArr m)
  then show ?thesis by (simp add: real_covmean_def)
next
  case (ComplexArr m)
  with assms have rect: "rectangular m" by simp
  have "set (map snd (concat (cols m))) = set (map snd (concat m))"
    by (simp only: set_map set_concat_cols [OF rect])
  then have mx: "max_abs (map snd (concat (cols m))) = max_abs (map snd (concat m))"
    by (rule max_abs_set)
  show ?thesis
    unfolding ComplexArr ctranspose.simps real_covmean_def
    by (simp add: np_diagonal_cols mx cols_map [OF rect] split: sum.splits)
qed

lemma frechet_formula_swap:
  "frechet_formula mu2 mu1 sigma2 sigma1 (cols covmean) =
   frechet_formula mu1 mu2 sigma1 sigma2 covmean"
  by (simp add: frechet_formula_def Let_def np_trace_cols dotv_diff_swap [of mu2 mu1]
      fadd_swap [of _ "np_trace sigma2"])

text \<open>The entrywise square root of the examples commutes with transposition.\<close>

lemma rectangular_matmul: "rectangular (matmul a b)"
  by (cases a) (simp_all add: rectangular_def matmul_def ncols_def list_all_iff)

lemma rectangular_map: "rectangular m \<Longrightarrow> rectangular (map (map f) m)"
  by (simp add: rectangular_def ncols_map list_all_iff)

lemma list_all_cols:
  "rectangular m \<Longrightarrow> list_all (list_all P) (cols m) = list_all (list_all P) m"
  by (simp only: list_all_concat set_concat_cols)

lemma sqrtm_entrywise_cols:
  "rectangular m \<Longrightarrow> sqrtm_entrywise (cols m) = ctranspose (sqrtm_entrywise m)"
  by (simp add: sqrtm_entrywise_def cols_map list_all_cols)

lemma sqrtm_entrywise_rectangular:
  "rectangular m \<Longrightarrow> crectangular (sqrtm_entrywise m)"
  by (simp add: sqrtm_entrywise_def rectangular_map)

text \<open>
  C9. For mean vectors of one length and symmetric covariance matrices of one size the
  distance is the same in both orders of the two Gaussians, for every \<open>sqrtm\<close> that
  commutes with transposition at the product and at the offset product, as the principal
  square root does, and returns rectangular arrays there. Arithmetic is exact in the
  model, so the two results are equal.
\<close>

theorem frechet_distance_symmetric:
  assumes "length mu1 = length mu2"
    and "symmetric sigma1" and "symmetric sigma2" and "length sigma1 = length sigma2"
    and "sqrtm (cols (matmul sigma1 sigma2)) = ctranspose (sqrtm (matmul sigma1 sigma2))"
    and "sqrtm (cols (offset_product sigma1 sigma2 eps)) =
         ctranspose (sqrtm (offset_product sigma1 sigma2 eps))"
    and "crectangular (sqrtm (matmul sigma1 sigma2))"
    and "crectangular (sqrtm (offset_product sigma1 sigma2 eps))"
  shows "calculate_frechet_distance sqrtm (A1 mu1) (A2 sigma1) (A1 mu2) (A2 sigma2) eps =
         calculate_frechet_distance sqrtm (A1 mu2) (A2 sigma2) (A1 mu1) (A2 sigma1) eps"
proof -
  let ?c = "covmean_of sqrtm (matmul sigma1 sigma2) sigma1 sigma2 eps"
  have sq1: "ncols sigma1 = length sigma1" and sq2: "ncols sigma2 = length sigma2"
    using assms(2,3) by (simp_all add: symmetric_square)
  have lhs: "calculate_frechet_distance sqrtm (A1 mu1) (A2 sigma1) (A1 mu2) (A2 sigma2) eps =
      (case real_covmean ?c of
         Inl e \<Rightarrow> Inl e
       | Inr covmean \<Rightarrow> Inr (A0 (frechet_formula mu1 mu2 sigma1 sigma2 covmean)))"
    using assms(1,4) sq1 sq2 by (intro calculate_frechet_distance_vector) simp_all
  have rhs: "calculate_frechet_distance sqrtm (A1 mu2) (A2 sigma2) (A1 mu1) (A2 sigma1) eps =
      (case real_covmean (covmean_of sqrtm (matmul sigma2 sigma1) sigma2 sigma1 eps) of
         Inl e \<Rightarrow> Inl e
       | Inr covmean \<Rightarrow> Inr (A0 (frechet_formula mu2 mu1 sigma2 sigma1 covmean)))"
    using assms(1,4) sq1 sq2 by (intro calculate_frechet_distance_vector) simp_all
  have "covmean_of sqrtm (matmul sigma2 sigma1) sigma2 sigma1 eps = ctranspose ?c"
    by (simp add: covmean_of_cases matmul_symmetric_swap [OF assms(2-4)]
        offset_product_swap [OF assms(2-4)] assms(5,6) isfinite_all_ctranspose [OF assms(7)])
  moreover have "crectangular ?c"
    using assms(7,8) by (simp add: covmean_of_cases)
  ultimately have "real_covmean (covmean_of sqrtm (matmul sigma2 sigma1) sigma2 sigma1 eps) =
      (case real_covmean ?c of Inl e \<Rightarrow> Inl e | Inr m \<Rightarrow> Inr (cols m))"
    by (simp add: real_covmean_ctranspose)
  then show ?thesis
    unfolding lhs rhs by (simp add: frechet_formula_swap split: sum.splits)
qed

theorem frechet_distance_symmetric_witness:
  "calculate_frechet_distance sqrtm_entrywise
     (A1 [Finite 1, Finite 0]) (A2 [[Finite 1, Finite 0], [Finite 0, Finite 0]])
     (A1 [Finite 1, Finite 2]) (A2 [[Finite 4, Finite 0], [Finite 0, Finite 0]]) eps_default =
   calculate_frechet_distance sqrtm_entrywise
     (A1 [Finite 1, Finite 2]) (A2 [[Finite 4, Finite 0], [Finite 0, Finite 0]])
     (A1 [Finite 1, Finite 0]) (A2 [[Finite 1, Finite 0], [Finite 0, Finite 0]]) eps_default \<and>
   calculate_frechet_distance sqrtm_entrywise
     (A1 [Finite 1, Finite 0]) (A2 [[Finite 1, Finite 0], [Finite 0, Finite 0]])
     (A1 [Finite 1, Finite 2]) (A2 [[Finite 4, Finite 0], [Finite 0, Finite 0]]) eps_default =
   Inr (A0 (Finite 5))"
proof
  let ?s1 = "[[Finite 1, Finite 0], [Finite 0, Finite 0]]"
  let ?s2 = "[[Finite 4, Finite 0], [Finite 0, Finite 0]]"
  have sym1: "symmetric ?s1" and sym2: "symmetric ?s2"
    by (simp_all add: symmetric_def cols_def ncols_def upt_rec numeral_nat)
  have op: "offset_product ?s1 ?s2 eps_default =
      matmul (mat_add ?s1 (mat_scale (np_eye (length ?s1)) eps_default))
        (mat_add ?s2 (mat_scale (np_eye (length ?s1)) eps_default))"
    by (simp only: offset_product_def)
  have rect: "rectangular (matmul ?s1 ?s2)" "rectangular (offset_product ?s1 ?s2 eps_default)"
    unfolding op by (rule rectangular_matmul)+
  show "calculate_frechet_distance sqrtm_entrywise
     (A1 [Finite 1, Finite 0]) (A2 ?s1) (A1 [Finite 1, Finite 2]) (A2 ?s2) eps_default =
   calculate_frechet_distance sqrtm_entrywise
     (A1 [Finite 1, Finite 2]) (A2 ?s2) (A1 [Finite 1, Finite 0]) (A2 ?s1) eps_default"
    by (rule frechet_distance_symmetric [OF _ sym1 sym2 _
          sqrtm_entrywise_cols [OF rect(1)] sqrtm_entrywise_cols [OF rect(2)]
          sqrtm_entrywise_rectangular [OF rect(1)] sqrtm_entrywise_rectangular [OF rect(2)]])
      simp_all
  have "covmean_of sqrtm_entrywise (matmul ?s1 ?s2) ?s1 ?s2 eps_default = RealArr [[Finite 2, Finite 0], [Finite 0, Finite 0]]"
    by (simp add: covmean_of_def sqrtm_entrywise_def array_eval)
  then show "calculate_frechet_distance sqrtm_entrywise
     (A1 [Finite 1, Finite 0]) (A2 ?s1) (A1 [Finite 1, Finite 2]) (A2 ?s2) eps_default =
     Inr (A0 (Finite 5))"
    by (simp add: calculate_frechet_distance_vector ncols_def real_covmean_def
        frechet_formula_def np_trace_def np_diagonal_def dotv_def upt_rec numeral_nat)
qed

end
